theory Spec2Isabelle
  imports Complex_Main
begin

text \<open>
  The Smart Factory dashboard: a web client that relays MQTT traffic over a WebSocket,
  shows sensor readings and alerts, and manages sensor limits and access rules through
  a REST interface. The theory embeds the WebSocket service, the dashboard's handlers
  and requests, the IoT store and the sensor-safety view as they are written, together
  with the contracts of the backend components that the client calls, and proves
  properties of them.
\<close>

section \<open>JavaScript values and control flow\<close>

text \<open>
  The message envelopes of the dashboard are plain JSON objects. A JavaScript value is
  modelled by the constructors below; an object is the list of its own properties, the
  first binding of a key being the one that is read.
\<close>

datatype jsval =
    JUndefined
  | JNull
  | JBool bool
  | JNum real
  | JStr string
  | JArr "jsval list"
  | JObj "(string \<times> jsval) list"

text \<open>Truthiness of a value, as \<^verbatim>\<open>if (v)\<close> and \<^verbatim>\<open>v || d\<close> test it (NaN is not modelled).\<close>

fun truthy :: "jsval \<Rightarrow> bool" where
  "truthy JUndefined = False"
| "truthy JNull = False"
| "truthy (JBool b) = b"
| "truthy (JNum r) = (r \<noteq> 0)"
| "truthy (JStr s) = (s \<noteq> [])"
| "truthy (JArr xs) = True"
| "truthy (JObj kvs) = True"

text \<open>\<^verbatim>\<open>a || b\<close>\<close>

definition js_or :: "jsval \<Rightarrow> jsval \<Rightarrow> jsval" where
  "js_or a b = (if truthy a then a else b)"

text \<open>
  A statement either completes normally or throws; in both cases the state it has
  reached is kept, since a throw does not undo the assignments made before it.
\<close>

datatype 's outcome = Normal 's | Throw jsval 's

fun state_of :: "'s outcome \<Rightarrow> 's" where
  "state_of (Normal s) = s"
| "state_of (Throw e s) = s"

fun threw :: "'s outcome \<Rightarrow> bool" where
  "threw (Normal s) = False"
| "threw (Throw e s) = True"

text \<open>\<^verbatim>\<open>try { body } catch (error) { handler }\<close>\<close>

definition try_catch ::
  "('s \<Rightarrow> 's outcome) \<Rightarrow> (jsval \<Rightarrow> 's \<Rightarrow> 's outcome) \<Rightarrow> 's \<Rightarrow> 's outcome" where
  "try_catch body handler s =
     (case body s of Normal s' \<Rightarrow> Normal s' | Throw e s' \<Rightarrow> handler e s')"

text \<open>
  \<^verbatim>\<open>array.forEach(callback)\<close> on an array that the callback may change: the indices
  visited are those below the length the array has when the loop starts; at each index
  the element is read from the array as it is then, and an index that the array no
  longer has is passed over. A throw of the callback leaves the loop and propagates to
  the caller. \<open>array\<close> reads the array in a state, \<open>k\<close> is the next index and \<open>n\<close> the
  number of indices still to visit.
\<close>

fun forEach ::
  "('h \<Rightarrow> 's \<Rightarrow> 's outcome) \<Rightarrow> ('s \<Rightarrow> 'h list) \<Rightarrow> nat \<Rightarrow> nat \<Rightarrow> 's \<Rightarrow> 's outcome" where
  "forEach callback array k 0 s = Normal s"
| "forEach callback array k (Suc n) s =
     (if k < length (array s) then
        (case callback (array s ! k) s of
           Normal s' \<Rightarrow> forEach callback array (Suc k) n s'
         | Throw e s' \<Rightarrow> Throw e s')
      else forEach callback array (Suc k) n s)"

section \<open>The WebSocket service (services/websocket.js)\<close>

datatype readyState = CONNECTING | OPEN | CLOSING | CLOSED

text \<open>A browser WebSocket object: its state, its URL and the frames handed to it.\<close>

record socket =
  readyState :: readyState
  url :: string
  outbox :: "string list"

datatype level = LLog | LWarn | LError

text \<open>
  The function objects of the application are known by reference, a number. A call of
  a function as a handler receives the data and the state of the views; it leaves a
  state of the views and the list of the calls of \<^verbatim>\<open>on\<close> and \<^verbatim>\<open>off\<close> that it has made
  on the service, and it may throw (what it did before the throw is kept). The other
  methods of the service (\<^verbatim>\<open>connect\<close>, \<^verbatim>\<open>disconnect\<close>, \<^verbatim>\<open>send\<close>) do not touch the handler
  arrays; a call of one of them is a call by the application, an \<open>event\<close> below.
\<close>

datatype registry_call = CallOn string nat | CallOff string nat

fun call_type :: "registry_call \<Rightarrow> string" where
  "call_type (CallOn t h) = t"
| "call_type (CallOff t h) = t"

type_synonym 'a handler = "jsval \<Rightarrow> 'a \<Rightarrow> ('a \<times> registry_call list) outcome"

text \<open>
  The fields of \<^verbatim>\<open>WebSocketService\<close>, together with what the service acts on: the
  WebSocket objects it has constructed (\<open>ws\<close> is an index into them, \<open>None\<close> for
  \<^verbatim>\<open>null\<close>), the timers it has set (delay in milliseconds, and whether the timer is
  still pending), the console, the function objects \<open>callbacks\<close> of the application and
  the state \<open>app\<close> of its views.

  \<^verbatim>\<open>messageHandlers\<close> is the \<^verbatim>\<open>Map\<close> from message type to handler array. The arrays
  are objects of their own: \<^verbatim>\<open>off\<close> removes an emptied array from the map and a later
  \<^verbatim>\<open>on\<close> puts a new array there, while a loop that is running still holds the old
  one. An array is named by the type it was created for and its number among the
  arrays created for that type; \<open>arrays\<close> gives its elements, \<open>created\<close> counts the arrays
  of a type, and \<open>messageHandlers\<close> gives the number of the array that is in the map.
\<close>

record 'a world =
  ws :: "nat option"
  reconnectAttempts :: nat
  maxReconnectAttempts :: nat
  reconnectDelay :: nat
  messageHandlers :: "string \<rightharpoonup> nat"
  arrays :: "string \<Rightarrow> nat \<Rightarrow> nat list"
  created :: "string \<Rightarrow> nat"
  isConnecting :: bool
  isManuallyDisconnected :: bool
  currentUserId :: "string option"
  currentUrl :: "string option"
  sockets :: "socket list"
  timers :: "(nat \<times> bool) list"
  console :: "(level \<times> string) list"
  callbacks :: "nat \<Rightarrow> 'a handler"
  app :: 'a

text \<open>
  The state the constructor sets up, in an application with the function objects \<open>fs\<close>
  and the views in state \<open>a\<close>.
\<close>

definition constructor :: "(nat \<Rightarrow> 'a handler) \<Rightarrow> 'a \<Rightarrow> 'a world" where
  "constructor fs a =
     \<lparr> ws = None, reconnectAttempts = 0, maxReconnectAttempts = 5, reconnectDelay = 1000,
       messageHandlers = Map.empty, arrays = (\<lambda>t g. []), created = (\<lambda>t. 0),
       isConnecting = False, isManuallyDisconnected = False,
       currentUserId = None, currentUrl = None, sockets = [], timers = [], console = [],
       callbacks = fs, app = a \<rparr>"

text \<open>A function that does nothing when called as a handler.\<close>

definition no_op :: "'a handler" where
  "no_op data a = Normal (a, [])"


definition console_out :: "level \<Rightarrow> string \<Rightarrow> 'a world \<Rightarrow> 'a world" where
  "console_out l txt s = s\<lparr>console := console s @ [(l, txt)]\<rparr>"

text \<open>\<^verbatim>\<open>this.ws && this.ws.readyState === WebSocket.OPEN\<close>\<close>

definition ws_open :: "'a world \<Rightarrow> bool" where
  "ws_open s =
     (case ws s of
        None \<Rightarrow> False
      | Some i \<Rightarrow> i < length (sockets s) \<and> readyState (sockets s ! i) = OPEN)"

subsection \<open>send\<close>

text \<open>
  \<^verbatim>\<open>typeof message === 'string' ? message : JSON.stringify(message)\<close>. The serialiser
  is the browser's; it is a parameter \<open>stringify\<close> that returns the text or the value
  it throws.
\<close>

definition messageStr :: "(jsval \<Rightarrow> jsval + string) \<Rightarrow> jsval \<Rightarrow> jsval + string" where
  "messageStr stringify message =
     (case message of JStr str \<Rightarrow> Inr str | _ \<Rightarrow> stringify message)"

text \<open>\<^verbatim>\<open>this.ws.send(messageStr)\<close> on the current socket.\<close>

definition ws_send :: "string \<Rightarrow> 'a world \<Rightarrow> 'a world" where
  "ws_send frame s =
     (case ws s of
        None \<Rightarrow> s
      | Some i \<Rightarrow>
          s\<lparr>sockets := (sockets s)[i := (sockets s ! i)\<lparr>outbox := outbox (sockets s ! i) @ [frame]\<rparr>]\<rparr>)"

definition send_body :: "(jsval \<Rightarrow> jsval + string) \<Rightarrow> jsval \<Rightarrow> 'a world \<Rightarrow> 'a world outcome" where
  "send_body stringify message s =
     (case messageStr stringify message of
        Inl e \<Rightarrow> Throw e s
      | Inr frame \<Rightarrow> Normal (console_out LLog ''WebSocket message sent:'' (ws_send frame s)))"

definition send :: "(jsval \<Rightarrow> jsval + string) \<Rightarrow> jsval \<Rightarrow> 'a world \<Rightarrow> 'a world outcome" where
  "send stringify message s =
     (if ws_open s then
        try_catch (send_body stringify message)
          (\<lambda>error s'. Normal (console_out LError ''Error sending WebSocket message:'' s')) s
      else Normal (console_out LWarn ''WebSocket not connected, cannot send message:'' s))"

subsection \<open>notifyHandlers, on, handleMessage\<close>

text \<open>\<^verbatim>\<open>handlers.push(handler)\<close> on the array \<open>g\<close> of type \<open>t\<close>.\<close>

definition push_handler :: "string \<Rightarrow> nat \<Rightarrow> nat \<Rightarrow> 'a world \<Rightarrow> 'a world" where
  "push_handler t g h s = s\<lparr>arrays := (arrays s)(t := (arrays s t)(g := arrays s t g @ [h]))\<rparr>"

text \<open>\<^verbatim>\<open>on(messageType, handler)\<close>: a type without an array gets a new, empty one first.\<close>

definition on :: "string \<Rightarrow> nat \<Rightarrow> 'a world \<Rightarrow> 'a world" where
  "on messageType handler s =
     console_out LLog (''Subscribed to WebSocket message type: '' @ messageType)
       (case messageHandlers s messageType of
          Some g \<Rightarrow> push_handler messageType g handler s
        | None \<Rightarrow>
            push_handler messageType (created s messageType) handler
              (s\<lparr>arrays := (arrays s)(messageType :=
                              (arrays s messageType)(created s messageType := [])),
                 created := (created s)(messageType := Suc (created s messageType)),
                 messageHandlers := (messageHandlers s)(messageType \<mapsto> created s messageType)\<rparr>))"

text \<open>
  \<^verbatim>\<open>off(messageType, handler)\<close>: the first occurrence of the handler is spliced out of
  the array, and an array left empty is deleted from the map.
\<close>

definition off :: "string \<Rightarrow> nat \<Rightarrow> 'a world \<Rightarrow> 'a world" where
  "off messageType handler s =
     (case messageHandlers s messageType of
        None \<Rightarrow> s
      | Some g \<Rightarrow>
          let handlers = remove1 handler (arrays s messageType g);
              s1 = s\<lparr>arrays := (arrays s)(messageType := (arrays s messageType)(g := handlers))\<rparr>
          in if handlers = []
             then s1\<lparr>messageHandlers := (messageHandlers s1)(messageType := None)\<rparr>
             else s1)"

text \<open>The calls of \<^verbatim>\<open>on\<close> and \<^verbatim>\<open>off\<close> a handler has made, in their order.\<close>

fun make_call :: "registry_call \<Rightarrow> 'a world \<Rightarrow> 'a world" where
  "make_call (CallOn t h) s = on t h s"
| "make_call (CallOff t h) s = off t h s"

definition registry_calls :: "registry_call list \<Rightarrow> 'a world \<Rightarrow> 'a world" where
  "registry_calls cs s = fold make_call cs s"

text \<open>The call \<^verbatim>\<open>handler(data)\<close>, as a statement of the service.\<close>

definition invoke :: "jsval \<Rightarrow> nat \<Rightarrow> 'a world \<Rightarrow> 'a world outcome" where
  "invoke data handler s =
     (case callbacks s handler data (app s) of
        Normal (a, cs) \<Rightarrow> Normal (registry_calls cs (s\<lparr>app := a\<rparr>))
      | Throw e (a, cs) \<Rightarrow> Throw e (registry_calls cs (s\<lparr>app := a\<rparr>)))"

text \<open>The callback given to \<^verbatim>\<open>forEach\<close>: the handler call inside its own try/catch.\<close>

definition notify_callback :: "string \<Rightarrow> jsval \<Rightarrow> nat \<Rightarrow> 'a world \<Rightarrow> 'a world outcome" where
  "notify_callback type data handler =
     try_catch (invoke data handler)
       (\<lambda>error s'. Normal (console_out LError (''Error in message handler for type '' @ type @ '':'') s'))"

text \<open>
  \<^verbatim>\<open>notifyHandlers(type, data)\<close>: the loop runs over the array that is in the map when
  it starts.
\<close>

definition notifyHandlers :: "string \<Rightarrow> jsval \<Rightarrow> 'a world \<Rightarrow> 'a world outcome" where
  "notifyHandlers type data s =
     (case messageHandlers s type of
        None \<Rightarrow> Normal s
      | Some g \<Rightarrow>
          forEach (notify_callback type data) (\<lambda>s'. arrays s' type g) 0
            (length (arrays s type g)) s)"

text \<open>The handlers registered for a type, in registration order.\<close>

definition handlers_of :: "'a world \<Rightarrow> string \<Rightarrow> nat list" where
  "handlers_of s type = (case messageHandlers s type of None \<Rightarrow> [] | Some g \<Rightarrow> arrays s type g)"


text \<open>Statements in sequence: the second runs only if the first completes normally.\<close>

definition then_do :: "('s \<Rightarrow> 's outcome) \<Rightarrow> ('s \<Rightarrow> 's outcome) \<Rightarrow> 's \<Rightarrow> 's outcome" where
  "then_do first second s =
     (case first s of Normal s' \<Rightarrow> second s' | Throw e s' \<Rightarrow> Throw e s')"

text \<open>
  Reading a property \<^verbatim>\<open>v.key\<close> for a key that is not a built-in one: a TypeError on
  \<^verbatim>\<open>undefined\<close> and \<^verbatim>\<open>null\<close>, the bound value on an object that has the key,
  \<^verbatim>\<open>undefined\<close> otherwise.
\<close>

definition nullish :: "jsval \<Rightarrow> bool" where
  "nullish v = (v = JUndefined \<or> v = JNull)"

definition field :: "string \<Rightarrow> jsval \<Rightarrow> jsval" where
  "field key v =
     (case v of
        JObj kvs \<Rightarrow> (case map_of kvs key of None \<Rightarrow> JUndefined | Some x \<Rightarrow> x)
      | _ \<Rightarrow> JUndefined)"

definition TypeError :: jsval where
  "TypeError = JStr ''TypeError''"

definition get_prop :: "string \<Rightarrow> jsval \<Rightarrow> jsval + jsval" where
  "get_prop key v = (if nullish v then Inl TypeError else Inr (field key v))"

text \<open>The line each case of the \<^verbatim>\<open>switch\<close> in \<^verbatim>\<open>handleMessage\<close> prints.\<close>

definition switch_messageType :: "jsval \<Rightarrow> level \<times> string" where
  "switch_messageType messageType =
     (if messageType = JStr ''pong'' then (LLog, ''Received pong from server'')
      else if messageType = JStr ''connection_status'' then (LLog, ''Connection status:'')
      else if messageType = JStr ''sensor_data'' then (LLog, ''Received sensor data:'')
      else if messageType = JStr ''mqtt_status'' then (LLog, ''MQTT status:'')
      else if messageType = JStr ''publish_ack'' then (LLog, ''Publish acknowledgment:'')
      else if messageType = JStr ''subscription_ack'' then (LLog, ''Subscription acknowledgment:'')
      else if messageType = JStr ''unsubscription_ack'' then (LLog, ''Unsubscription acknowledgment:'')
      else if messageType = JStr ''permission_revoked'' then (LWarn, ''Permission revoked:'')
      else if messageType = JStr ''system_alert'' then (LLog, ''System alert:'')
      else if messageType = JStr ''device_status'' then (LLog, ''Device status:'')
      else if messageType = JStr ''mqtt_publish'' then (LLog, ''MQTT publish event:'')
      else (LLog, ''Unhandled message type:''))"

text \<open>
  \<^verbatim>\<open>handleMessage\<close>. Handlers are registered under strings only (every call of
  \<^verbatim>\<open>on\<close> passes a string literal), so a truthy type that is not a string finds no
  handler array.
\<close>

definition handleMessage :: "jsval \<Rightarrow> 'a world \<Rightarrow> 'a world outcome" where
  "handleMessage message s =
     (case get_prop ''type'' message of
        Inl e \<Rightarrow> Throw e s
      | Inr messageType \<Rightarrow>
          then_do
            (\<lambda>s. if truthy messageType
                  then (case messageType of
                          JStr t \<Rightarrow> notifyHandlers t message s
                        | _ \<Rightarrow> Normal s)
                  else Normal s)
            (\<lambda>s. Normal (console_out (fst (switch_messageType messageType))
                            (snd (switch_messageType messageType)) s))
            s)"

subsection \<open>connect, disconnect, scheduleReconnect\<close>

datatype promise = Resolved | Rejected | Pending

text \<open>
  \<^verbatim>\<open>connect(url, userId)\<close>. \<open>constructed\<close> tells whether \<^verbatim>\<open>new WebSocket(urlWithUser)\<close>
  returns an object (it throws on a malformed URL). The promise is pending until the
  socket's \<^verbatim>\<open>onopen\<close> or \<^verbatim>\<open>onerror\<close> settles it.
\<close>

definition connect :: "bool \<Rightarrow> string \<Rightarrow> string \<Rightarrow> 'a world \<Rightarrow> promise \<times> 'a world" where
  "connect constructed url' userId s =
     (if isConnecting s \<or> ws_open s then
        (Resolved, console_out LLog ''WebSocket already connected or connecting'' s)
      else
        let s1 = s\<lparr>isConnecting := True, isManuallyDisconnected := False,
                   currentUserId := Some userId, currentUrl := Some url'\<rparr>;
            urlWithUser = url' @ ''?user_id='' @ userId;
            s2 = console_out LLog (''Connecting to WebSocket: '' @ urlWithUser) s1
        in if constructed then
             (Pending,
              s2\<lparr>sockets := sockets s2 @ [\<lparr>readyState = CONNECTING, url = urlWithUser, outbox = []\<rparr>],
                 ws := Some (length (sockets s2))\<rparr>)
           else
             (Rejected,
              (console_out LError ''Failed to create WebSocket connection:'' s2)\<lparr>isConnecting := False\<rparr>))"

text \<open>\<^verbatim>\<open>socket.close(code, reason)\<close>: no effect on a socket that is closing or closed.\<close>

definition socket_close :: "socket \<Rightarrow> socket" where
  "socket_close k =
     (if readyState k = CLOSING \<or> readyState k = CLOSED then k else k\<lparr>readyState := CLOSING\<rparr>)"

definition disconnect :: "'a world \<Rightarrow> 'a world" where
  "disconnect s =
     (let s1 = s\<lparr>isManuallyDisconnected := True, reconnectAttempts := maxReconnectAttempts s\<rparr>;
          s2 = (case ws s1 of
                  None \<Rightarrow> s1
                | Some i \<Rightarrow> s1\<lparr>sockets := (sockets s1)[i := socket_close (sockets s1 ! i)], ws := None\<rparr>)
      in s2\<lparr>currentUserId := None, currentUrl := None\<rparr>)"

text \<open>
  \<^verbatim>\<open>scheduleReconnect\<close>: the timer set by \<^verbatim>\<open>setTimeout\<close> is appended to \<open>timers\<close> as
  pending; its callback is \<open>reconnect_timer\<close> below.
\<close>

definition scheduleReconnect :: "'a world \<Rightarrow> 'a world" where
  "scheduleReconnect s =
     (let s1 = s\<lparr>reconnectAttempts := reconnectAttempts s + 1\<rparr>;
          delay = min (reconnectDelay s1 * 2 ^ (reconnectAttempts s1 - 1)) 30000
      in (console_out LLog ''Scheduling reconnect attempt'' s1)\<lparr>timers := timers s1 @ [(delay, True)]\<rparr>)"

text \<open>\<^verbatim>\<open>this.currentUrl && this.currentUserId\<close>: neither null nor the empty string.\<close>

definition truthy_field :: "string option \<Rightarrow> bool" where
  "truthy_field f = (case f of None \<Rightarrow> False | Some str \<Rightarrow> str \<noteq> [])"

definition reconnect_timer :: "bool \<Rightarrow> 'a world \<Rightarrow> 'a world" where
  "reconnect_timer constructed s =
     (if \<not> isManuallyDisconnected s \<and> truthy_field (currentUrl s) \<and> truthy_field (currentUserId s)
      then (case (currentUrl s, currentUserId s) of
              (Some u, Some i) \<Rightarrow> snd (connect constructed u i s)
            | _ \<Rightarrow> s)
      else s)"

subsection \<open>The handlers connect attaches to the socket\<close>

definition onopen :: "'a world \<Rightarrow> 'a world outcome" where
  "onopen s =
     Normal ((console_out LLog ''WebSocket connected successfully as user:'' s)
               \<lparr>isConnecting := False, reconnectAttempts := 0, reconnectDelay := 1000\<rparr>)"

text \<open>\<open>parsed\<close> is what \<^verbatim>\<open>JSON.parse(event.data)\<close> returns or throws.\<close>

definition onmessage :: "jsval + jsval \<Rightarrow> 'a world \<Rightarrow> 'a world outcome" where
  "onmessage parsed =
     try_catch
       (\<lambda>s. case parsed of
               Inl e \<Rightarrow> Throw e s
             | Inr message \<Rightarrow> handleMessage message (console_out LLog ''WebSocket message received:'' s))
       (\<lambda>error s. Normal (console_out LError ''Error parsing WebSocket message:'' s))"

definition close_status :: "jsval \<Rightarrow> jsval \<Rightarrow> jsval" where
  "close_status code reason =
     JObj [(''status'', JStr ''disconnected''), (''event'', JStr ''close''),
           (''code'', code), (''reason'', reason)]"

definition onclose :: "jsval \<Rightarrow> jsval \<Rightarrow> 'a world \<Rightarrow> 'a world outcome" where
  "onclose code reason =
     then_do
       (\<lambda>s. notifyHandlers ''connection_status'' (close_status code reason)
              ((console_out LLog ''WebSocket connection closed:'' s)\<lparr>isConnecting := False\<rparr>))
       (\<lambda>s. if \<not> isManuallyDisconnected s \<and> reconnectAttempts s < maxReconnectAttempts s
             then Normal (scheduleReconnect s)
             else Normal s)"

definition error_status :: "jsval \<Rightarrow> jsval" where
  "error_status error =
     JObj [(''status'', JStr ''error''), (''event'', JStr ''error''), (''error'', error)]"

definition onerror :: "jsval \<Rightarrow> 'a world \<Rightarrow> 'a world outcome" where
  "onerror error s =
     notifyHandlers ''connection_status'' (error_status error)
       ((console_out LError ''WebSocket error:'' s)\<lparr>isConnecting := False\<rparr>)"

subsection \<open>What happens to the service\<close>

text \<open>
  The application calls \<^verbatim>\<open>connect\<close>, \<^verbatim>\<open>disconnect\<close> and \<^verbatim>\<open>send\<close>; the browser
  delivers the events of a socket the service has constructed (setting the socket's
  state first) and fires pending timers. An event for a socket or timer that does not
  exist, or that the socket's state excludes, does nothing.
\<close>

datatype event =
    Connect bool string string
  | Disconnect
  | Send jsval
  | SocketOpen nat
  | SocketMessage nat "jsval + jsval"
  | SocketClose nat jsval jsval
  | SocketError nat jsval
  | TimerFires nat bool

definition set_readyState :: "nat \<Rightarrow> readyState \<Rightarrow> 'a world \<Rightarrow> 'a world" where
  "set_readyState i r s = s\<lparr>sockets := (sockets s)[i := (sockets s ! i)\<lparr>readyState := r\<rparr>]\<rparr>"

definition socket_is :: "nat \<Rightarrow> readyState \<Rightarrow> 'a world \<Rightarrow> bool" where
  "socket_is i r s = (i < length (sockets s) \<and> readyState (sockets s ! i) = r)"

fun step :: "(jsval \<Rightarrow> jsval + string) \<Rightarrow> event \<Rightarrow> 'a world \<Rightarrow> 'a world" where
  "step stringify (Connect constructed u i) s = snd (connect constructed u i s)"
| "step stringify Disconnect s = disconnect s"
| "step stringify (Send message) s = state_of (send stringify message s)"
| "step stringify (SocketOpen i) s =
     (if socket_is i CONNECTING s then state_of (onopen (set_readyState i OPEN s)) else s)"
| "step stringify (SocketMessage i parsed) s =
     (if socket_is i OPEN s then state_of (onmessage parsed s) else s)"
| "step stringify (SocketClose i code reason) s =
     (if i < length (sockets s) \<and> \<not> socket_is i CLOSED s
      then state_of (onclose code reason (set_readyState i CLOSED s)) else s)"
| "step stringify (SocketError i error) s =
     (if i < length (sockets s) then state_of (onerror error s) else s)"
| "step stringify (TimerFires i constructed) s =
     (if i < length (timers s) \<and> snd (timers s ! i)
      then reconnect_timer constructed (s\<lparr>timers := (timers s)[i := (fst (timers s ! i), False)]\<rparr>)
      else s)"

fun run :: "(jsval \<Rightarrow> jsval + string) \<Rightarrow> event list \<Rightarrow> 'a world \<Rightarrow> 'a world" where
  "run stringify [] s = s"
| "run stringify (e # es) s = run stringify es (step stringify e s)"

fun is_Connect :: "event \<Rightarrow> bool" where
  "is_Connect (Connect constructed u i) = True"
| "is_Connect e = False"

subsection \<open>The MQTT methods of the service\<close>






definition get_status_envelope :: jsval where
  "get_status_envelope = JObj [(''type'', JStr ''get_status'')]"









section \<open>The dashboard view\<close>

text \<open>
  The refs of the dashboard that its handlers and requests read and write. A toast is
  recorded by the text of its template and its colour, a console line by its fixed text.
\<close>

record dashboard =
  isLoading :: bool
  hasData :: bool
  isConnected :: bool
  connectionStatus :: string
  devices :: "jsval list"
  latestSensorData :: "jsval list"
  activeUsers :: jsval
  systemAlerts :: "jsval list"
  aclInfo :: jsval
  ssInfo :: jsval
  toasts :: "(string \<times> string) list"
  logged :: "string list"

definition showToast :: "string \<Rightarrow> string \<Rightarrow> dashboard \<Rightarrow> dashboard" where
  "showToast message color d = d\<lparr>toasts := toasts d @ [(message, color)]\<rparr>"

subsection \<open>Requests sent over the WebSocket\<close>











text \<open>Every frame handed to a socket so far.\<close>

definition frames :: "'a world \<Rightarrow> string set" where
  "frames s = (\<Union>k \<in> set (sockets s). set (outbox k))"





subsection \<open>Handlers of the dashboard\<close>

text \<open>
  \<^verbatim>\<open>array.includes(v)\<close> compares primitives by value; an object or array taken from a
  parsed message is a new reference, which no element of the array is.
\<close>

definition js_includes :: "jsval list \<Rightarrow> jsval \<Rightarrow> bool" where
  "js_includes xs v = (case v of JObj kvs \<Rightarrow> False | JArr ys \<Rightarrow> False | _ \<Rightarrow> v \<in> set xs)"

text \<open>
  A value interpolated in a template literal is converted to a string. The conversion
  of an object calls its \<^verbatim>\<open>toString\<close>; an object of a parsed message that has a property
  of that name has a value there that cannot be called, and the conversion throws a
  TypeError. The conversion of an array converts its elements.
\<close>

fun template_throws :: "jsval \<Rightarrow> bool" where
  "template_throws (JObj kvs) = (map_of kvs ''toString'' \<noteq> None)"
| "template_throws (JArr xs) = list_ex template_throws xs"
| "template_throws JUndefined = False"
| "template_throws JNull = False"
| "template_throws (JBool b) = False"
| "template_throws (JNum r) = False"
| "template_throws (JStr str) = False"

text \<open>
  \<open>now\<close> and \<open>rnd\<close> are \<^verbatim>\<open>Date.now()\<close> and \<^verbatim>\<open>Math.random()\<close>, \<open>isoNow\<close> is
  \<^verbatim>\<open>new Date().toISOString()\<close>.
\<close>

definition system_alert_entry :: "real \<Rightarrow> real \<Rightarrow> string \<Rightarrow> jsval \<Rightarrow> jsval" where
  "system_alert_entry now rnd isoNow data =
     JObj [(''id'', JNum (now + rnd)), (''level'', field ''level'' data),
           (''message'', field ''message'' data), (''details'', field ''details'' data),
           (''timestamp'', JStr isoNow)]"

text \<open>
  \<^verbatim>\<open>handleSystemAlert\<close>. Reading \<^verbatim>\<open>data.level\<close> throws before anything is stored when there
  is no data; the text of the toast is built after the alert is stored, and building it
  throws when \<^verbatim>\<open>data.message\<close> cannot be converted.
\<close>

definition handleSystemAlert :: "real \<Rightarrow> real \<Rightarrow> string \<Rightarrow> jsval \<Rightarrow> dashboard \<Rightarrow> dashboard outcome" where
  "handleSystemAlert now rnd isoNow data d =
     (if nullish data then Throw TypeError d
      else
        let d1 = d\<lparr>systemAlerts := system_alert_entry now rnd isoNow data # systemAlerts d\<rparr>;
            d2 = (if length (systemAlerts d1) > 20
                  then d1\<lparr>systemAlerts := take 20 (systemAlerts d1)\<rparr> else d1)
        in if field ''level'' data = JStr ''error'' \<or> field ''level'' data = JStr ''critical''
           then (if template_throws (field ''message'' data) then Throw TypeError d2
                 else Normal (showToast ''data.level.toUpperCase(): data.message'' ''danger'' d2))
           else Normal d2)"

definition sensorReading :: "real \<Rightarrow> real \<Rightarrow> string \<Rightarrow> jsval \<Rightarrow> jsval" where
  "sensorReading now rnd isoNow data =
     (let payload = field ''data'' data
      in JObj [(''id'', JNum (now + rnd)),
               (''device_id'', js_or (field ''device_id'' payload) (JStr ''unknown'')),
               (''sensor_type'', js_or (field ''sensor_type'' payload) (JStr ''unknown'')),
               (''value'', field ''value'' payload),
               (''unit'', js_or (field ''unit'' payload) (JStr [])),
               (''timestamp'', js_or (field ''timestamp'' payload) (JStr isoNow)),
               (''topic'', field ''topic'' data),
               (''qos'', field ''qos'' data),
               (''retain'', field ''retain'' data)])"

text \<open>
  \<^verbatim>\<open>handleSensorData\<close>. Reading \<^verbatim>\<open>data.data.device_id\<close> throws before anything is stored
  when there is no data or no \<^verbatim>\<open>data.data\<close>; the line about a new device is built after
  the reading is stored and the device added, and building it throws when the device
  id cannot be converted.
\<close>

definition handleSensorData :: "real \<Rightarrow> real \<Rightarrow> string \<Rightarrow> jsval \<Rightarrow> dashboard \<Rightarrow> dashboard outcome" where
  "handleSensorData now rnd isoNow data d =
     (if nullish data \<or> nullish (field ''data'' data) then Throw TypeError d
      else
        let reading = sensorReading now rnd isoNow data;
            d1 = d\<lparr>latestSensorData := reading # latestSensorData d\<rparr>;
            d2 = (if length (latestSensorData d1) > 50
                  then d1\<lparr>latestSensorData := take 50 (latestSensorData d1)\<rparr> else d1);
            deviceId = field ''device_id'' reading
        in if deviceId \<noteq> JStr ''unknown'' \<and> \<not> js_includes (devices d2) deviceId
           then (let d3 = d2\<lparr>devices := devices d2 @ [deviceId]\<rparr>
                 in if template_throws deviceId then Throw TypeError d3
                    else Normal (d3\<lparr>logged := logged d3 @ [''Auto-discovered new device:'']\<rparr>))
           else Normal d2)"


section \<open>The IoT store (stores/iot.js)\<close>

text \<open>
  The entries of the store are built by object literals with a spread,
  \<^verbatim>\<open>{ id: ..., ...reading, timestamp: ... }\<close>. The parts of such a literal are given in
  their order; the object they make is the runtime's to build (it orders the
  properties and lets a later part replace an earlier property), and the functions
  below take that evaluation as the parameter \<open>literal\<close>. Building the object does not
  throw.
\<close>

datatype literal_part = Property string jsval | Spread jsval

record iot_store =
  store_devices :: "jsval list"
  store_latestSensorData :: "jsval list"
  store_activeUsers :: "jsval list"
  store_systemAlerts :: "jsval list"
  store_isLoading :: bool
  store_error :: jsval
  backendHealth :: jsval
  databaseStatus :: jsval

definition store_alert_entry ::
  "(literal_part list \<Rightarrow> jsval) \<Rightarrow> real \<Rightarrow> real \<Rightarrow> string \<Rightarrow> jsval \<Rightarrow> jsval" where
  "store_alert_entry literal now rnd isoNow alert =
     literal [Property ''id'' (JNum (now + rnd)), Spread alert, Property ''timestamp'' (JStr isoNow)]"

definition addSystemAlert ::
  "(literal_part list \<Rightarrow> jsval) \<Rightarrow> real \<Rightarrow> real \<Rightarrow> string \<Rightarrow> jsval \<Rightarrow> iot_store \<Rightarrow> iot_store outcome" where
  "addSystemAlert literal now rnd isoNow alert st =
     (let st1 = st\<lparr>store_systemAlerts :=
                     store_alert_entry literal now rnd isoNow alert # store_systemAlerts st\<rparr>
      in if length (store_systemAlerts st1) > 20
         then Normal (st1\<lparr>store_systemAlerts := take 20 (store_systemAlerts st1)\<rparr>)
         else Normal st1)"

definition store_reading_entry ::
  "(literal_part list \<Rightarrow> jsval) \<Rightarrow> real \<Rightarrow> real \<Rightarrow> string \<Rightarrow> jsval \<Rightarrow> jsval" where
  "store_reading_entry literal now rnd isoNow reading =
     literal [Property ''id'' (JNum (now + rnd)), Spread reading,
              Property ''timestamp'' (js_or (field ''timestamp'' reading) (JStr isoNow))]"

text \<open>\<^verbatim>\<open>reading.timestamp\<close> is read while the new entry is built, before \<^verbatim>\<open>unshift\<close> runs.\<close>

definition addSensorReading ::
  "(literal_part list \<Rightarrow> jsval) \<Rightarrow> real \<Rightarrow> real \<Rightarrow> string \<Rightarrow> jsval \<Rightarrow> iot_store \<Rightarrow> iot_store outcome" where
  "addSensorReading literal now rnd isoNow reading st =
     (if nullish reading then Throw TypeError st
      else
        let st1 = st\<lparr>store_latestSensorData :=
                       store_reading_entry literal now rnd isoNow reading # store_latestSensorData st\<rparr>
        in if length (store_latestSensorData st1) > 50
           then Normal (st1\<lparr>store_latestSensorData := take 50 (store_latestSensorData st1)\<rparr>)
           else Normal st1)"

section \<open>Sensor-safety management view (views/SSManagement.vue)\<close>

text \<open>
  A Limit Config. The limits are of type \<open>'n\<close>: the text or number of an input field in
  the forms of the view, a number in the evaluator.
\<close>

record 'n limit_config =
  name :: string
  upper_limit :: 'n
  lower_limit :: 'n
  unit :: string
  is_selected :: bool

text \<open>
  A sensor as the REST interface carries it (the payload of a create, the objects of a
  listing); \<open>limits\<close> is \<open>None\<close> when the object has no such property.
\<close>

record 'n sensor =
  sensor_id :: string
  pattern :: string
  sensor_type :: string
  is_active :: bool
  limits :: "'n limit_config list option"

text \<open>The body of an update request.\<close>

record sensor_update =
  upd_pattern :: string
  upd_sensor_type :: string
  upd_is_active :: bool
  upd_limits :: "jsval limit_config list"

text \<open>The form \<^verbatim>\<open>newSensor\<close>.\<close>

record new_sensor =
  sensorId :: string
  new_pattern :: string
  sensorType :: string
  new_is_active :: bool
  new_limits :: "jsval limit_config list"

text \<open>
  An alert as the view receives it; times are in milliseconds. The fields \<open>alert_id\<close>,
  \<open>alert_sensor_id\<close>, \<open>alert_kind\<close>, \<open>alert_message\<close>, \<open>alert_limit\<close> and \<open>alert_unit\<close>
  are the properties \<^verbatim>\<open>id\<close>, \<^verbatim>\<open>sensor_id\<close>, \<^verbatim>\<open>alert_type\<close>, \<^verbatim>\<open>message\<close>,
  \<^verbatim>\<open>limit_value\<close> and \<^verbatim>\<open>unit\<close>.
\<close>

record alert =
  alert_id :: nat
  alert_sensor_id :: string
  alert_kind :: string
  alert_message :: string
  triggered_value :: real
  alert_limit :: real
  alert_unit :: string
  mqtt_topic :: string
  raw_data :: jsval
  triggered_at :: nat
  is_resolved :: bool
  resolved_at :: "nat option"

text \<open>
  The refs of the view that the functions below read and write. The search results
  that watchers derive from them are left out.
\<close>

record ss_view =
  sensors :: "jsval sensor list"
  filteredSensors :: "jsval sensor list"
  alerts :: "alert list"
  ss_info :: jsval
  newSensor :: new_sensor
  editingSensor :: "jsval sensor option"
  showEditModal :: bool
  addError :: string
  updateError :: string
  resolveError :: string
  ss_toasts :: "(string \<times> string) list"

text \<open>
  The REST client \<^verbatim>\<open>apiService\<close>, as far as the view calls it. The server is not part
  of the sources: its state is of an arbitrary type \<open>'srv\<close>, a writing request returns
  the server's new state and whether the response is a success (the promise rejects
  otherwise), a reading request returns the data or \<open>None\<close> when it fails.
\<close>

record 'srv ss_api =
  api_addSensor :: "jsval sensor \<Rightarrow> 'srv \<Rightarrow> 'srv \<times> bool"
  api_updateSensor :: "string \<Rightarrow> sensor_update \<Rightarrow> 'srv \<Rightarrow> 'srv \<times> bool"
  api_getAllSensors :: "'srv \<Rightarrow> jsval sensor list option"
  api_getSSInfo :: "'srv \<Rightarrow> jsval option"
  api_getAlerts :: "'srv \<Rightarrow> alert list option"
  api_resolveAlert :: "nat \<Rightarrow> 'srv \<Rightarrow> 'srv \<times> bool"
  api_revertAlert :: "nat \<Rightarrow> 'srv \<Rightarrow> 'srv \<times> bool"

definition ss_toast :: "string \<Rightarrow> string \<Rightarrow> ss_view \<Rightarrow> ss_view" where
  "ss_toast msg color v = v\<lparr>ss_toasts := ss_toasts v @ [(msg, color)]\<rparr>"

definition blank_limit :: "jsval limit_config" where
  "blank_limit =
     \<lparr>name = [], upper_limit = JStr [], lower_limit = JStr [], unit = [], is_selected = True\<rparr>"

definition blank_sensor :: new_sensor where
  "blank_sensor =
     \<lparr>sensorId = [], new_pattern = [], sensorType = [], new_is_active = True,
      new_limits = [blank_limit]\<rparr>"

text \<open>The computed counts of selected limits of the two forms.\<close>

definition addSelectedLimitsCount :: "ss_view \<Rightarrow> nat" where
  "addSelectedLimitsCount v = length (filter is_selected (new_limits (newSensor v)))"

definition editSelectedLimitsCount :: "ss_view \<Rightarrow> nat" where
  "editSelectedLimitsCount v =
     (case editingSensor v of
        None \<Rightarrow> 0
      | Some e \<Rightarrow> (case limits e of None \<Rightarrow> 0 | Some ls \<Rightarrow> length (filter is_selected ls)))"

text \<open>
  \<^verbatim>\<open>str.trim()\<close> removes the white space at both ends (the ASCII white space is
  modelled), and \<^verbatim>\<open>isValidNewSensor\<close> enables the button that calls \<^verbatim>\<open>createSensor\<close>.
\<close>

definition is_space :: "char \<Rightarrow> bool" where
  "is_space c = (c \<in> set [CHR '' '', CHR 0x09, CHR 0x0A, CHR 0x0B, CHR 0x0C, CHR 0x0D])"

definition trim :: "string \<Rightarrow> string" where
  "trim str = rev (dropWhile is_space (rev (dropWhile is_space str)))"

definition isValidNewSensor :: "ss_view \<Rightarrow> bool" where
  "isValidNewSensor v =
     (trim (sensorId (newSensor v)) \<noteq> [] \<and> trim (new_pattern (newSensor v)) \<noteq> [] \<and>
      trim (sensorType (newSensor v)) \<noteq> [])"

definition loadSSInfo :: "'srv ss_api \<Rightarrow> ss_view \<times> 'srv \<Rightarrow> ss_view \<times> 'srv" where
  "loadSSInfo api = (\<lambda>(v, srv).
     (case api_getSSInfo api srv of
        Some data \<Rightarrow> (v\<lparr>ss_info := data\<rparr>, srv)
      | None \<Rightarrow> (ss_toast ''Failed to load SS info'' ''danger'' v, srv)))"

definition loadSensors :: "'srv ss_api \<Rightarrow> ss_view \<times> 'srv \<Rightarrow> ss_view \<times> 'srv" where
  "loadSensors api = (\<lambda>(v, srv).
     (case api_getAllSensors api srv of
        Some data \<Rightarrow> (v\<lparr>sensors := data, filteredSensors := data\<rparr>, srv)
      | None \<Rightarrow> (ss_toast ''Failed to load sensors'' ''danger'' v, srv)))"

definition loadAlerts :: "'srv ss_api \<Rightarrow> ss_view \<times> 'srv \<Rightarrow> ss_view \<times> 'srv" where
  "loadAlerts api = (\<lambda>(v, srv).
     (case api_getAlerts api srv of
        Some data \<Rightarrow> (v\<lparr>alerts := data\<rparr>, srv)
      | None \<Rightarrow> (ss_toast ''Failed to load alerts'' ''danger'' v, srv)))"

subsection \<open>Creating and updating a sensor\<close>

text \<open>
  The payload \<^verbatim>\<open>createSensor\<close> builds from the form; \<open>Number\<close> is JavaScript's
  conversion of the text of an input field.
\<close>

definition createSensor_payload :: "(jsval \<Rightarrow> jsval) \<Rightarrow> new_sensor \<Rightarrow> jsval sensor" where
  "createSensor_payload Number f =
     \<lparr>sensor_id = sensorId f, pattern = new_pattern f, sensor_type = sensorType f,
      is_active = new_is_active f,
      limits = Some (map (\<lambda>limit.
                 \<lparr>name = name limit, upper_limit = Number (upper_limit limit),
                  lower_limit = Number (lower_limit limit), unit = unit limit,
                  is_selected = is_selected limit\<rparr>) (new_limits f))\<rparr>"

definition createSensor ::
  "(jsval \<Rightarrow> jsval) \<Rightarrow> 'srv ss_api \<Rightarrow> ss_view \<times> 'srv \<Rightarrow> ss_view \<times> 'srv" where
  "createSensor Number api = (\<lambda>(v, srv).
     if addSelectedLimitsCount v > 1 then
       (v\<lparr>addError := ''You cannot select more than 1 limit.''\<rparr>, srv)
     else
       (case api_addSensor api (createSensor_payload Number (newSensor v)) srv of
          (srv1, ok) \<Rightarrow>
            if ok then
              (case loadSSInfo api (loadSensors api (v\<lparr>newSensor := blank_sensor\<rparr>, srv1)) of
                 (v1, srv2) \<Rightarrow> (ss_toast ''Sensor created successfully'' ''success'' v1, srv2))
            else (ss_toast ''Failed to create sensor'' ''danger'' v, srv1)))"

text \<open>\<^verbatim>\<open>editSensor\<close> copies the sensor into the edit form.\<close>

definition editSensor :: "jsval sensor \<Rightarrow> ss_view \<Rightarrow> ss_view" where
  "editSensor sensor v =
     v\<lparr>editingSensor :=
          Some (case limits sensor of
                  None \<Rightarrow> sensor\<lparr>limits := Some [blank_limit]\<rparr>
                | Some ls \<Rightarrow> sensor),
       showEditModal := True\<rparr>"

text \<open>
  The payload \<^verbatim>\<open>updateSensor\<close> builds (\<^verbatim>\<open>limits || []\<close>); the copy through
  \<^verbatim>\<open>JSON.parse(JSON.stringify(...))\<close> leaves these values as they are.
\<close>

definition cleanPayload :: "jsval sensor \<Rightarrow> sensor_update" where
  "cleanPayload e =
     \<lparr>upd_pattern = pattern e, upd_sensor_type = sensor_type e, upd_is_active = is_active e,
      upd_limits = (case limits e of None \<Rightarrow> [] | Some ls \<Rightarrow> ls)\<rparr>"

text \<open>
  \<^verbatim>\<open>updateSensor\<close>. With no sensor being edited, reading \<^verbatim>\<open>editingSensor.value.pattern\<close>
  throws and the \<^verbatim>\<open>catch\<close> shows the failure toast.
\<close>

definition updateSensor :: "'srv ss_api \<Rightarrow> ss_view \<times> 'srv \<Rightarrow> ss_view \<times> 'srv" where
  "updateSensor api = (\<lambda>(v, srv).
     if editSelectedLimitsCount v > 1 then
       (v\<lparr>updateError := ''You cannot select more than 1 limit.''\<rparr>, srv)
     else
       (case editingSensor v of
          None \<Rightarrow> (ss_toast ''Failed to update sensor'' ''danger'' v, srv)
        | Some e \<Rightarrow>
            (case api_updateSensor api (sensor_id e) (cleanPayload e) srv of
               (srv1, ok) \<Rightarrow>
                 if ok then
                   (case loadSensors api (v\<lparr>showEditModal := False, editingSensor := None\<rparr>, srv1) of
                      (v1, srv2) \<Rightarrow> (ss_toast ''Sensor updated successfully'' ''success'' v1, srv2))
                 else (ss_toast ''Failed to update sensor'' ''danger'' v, srv1))))"

subsection \<open>Editing the limits of the create form\<close>

text \<open>The name of an added config is \<^verbatim>\<open>config_\<close> followed by its number.\<close>

definition addLimitConfig :: "(nat \<Rightarrow> string) \<Rightarrow> ss_view \<Rightarrow> ss_view" where
  "addLimitConfig decimal v =
     (let f = newSensor v
      in v\<lparr>newSensor := f\<lparr>new_limits := new_limits f @
             [\<lparr>name = ''config_'' @ decimal (length (new_limits f) + 1), upper_limit = JStr [],
               lower_limit = JStr [], unit = [], is_selected = False\<rparr>]\<rparr>\<rparr>)"

text \<open>\<^verbatim>\<open>limits.splice(index, 1)\<close>, when more than one config is left.\<close>

definition removeLimitConfig :: "nat \<Rightarrow> ss_view \<Rightarrow> ss_view" where
  "removeLimitConfig index v =
     (let f = newSensor v
      in if length (new_limits f) > 1
         then v\<lparr>newSensor := f\<lparr>new_limits := take index (new_limits f) @ drop (Suc index) (new_limits f)\<rparr>\<rparr>
         else v)"

text \<open>The toggle bound to \<^verbatim>\<open>limit.is_selected\<close> of the config in row \<open>index\<close>.\<close>

definition toggle_selected :: "nat \<Rightarrow> ss_view \<Rightarrow> ss_view" where
  "toggle_selected index v =
     (let f = newSensor v
      in if index < length (new_limits f)
         then v\<lparr>newSensor := f\<lparr>new_limits := (new_limits f)
                  [index := (new_limits f ! index)\<lparr>is_selected := \<not> is_selected (new_limits f ! index)\<rparr>]\<rparr>\<rparr>
         else v)"

subsection \<open>Resolving and reverting an alert\<close>

text \<open>
  \<^verbatim>\<open>if (response.data = true)\<close> is an assignment, so both lists are reloaded after
  every successful response.
\<close>

definition resolveAlert :: "'srv ss_api \<Rightarrow> alert \<Rightarrow> ss_view \<times> 'srv \<Rightarrow> ss_view \<times> 'srv" where
  "resolveAlert api alert = (\<lambda>(v, srv).
     if is_resolved alert then (v, srv)
     else
       (case api_resolveAlert api (alert_id alert) srv of
          (srv1, ok) \<Rightarrow>
            if ok then loadAlerts api (loadSensors api (v, srv1))
            else (v\<lparr>resolveError := ''Failed to resolve alert''\<rparr>, srv1)))"

definition revertAlert :: "'srv ss_api \<Rightarrow> alert \<Rightarrow> ss_view \<times> 'srv \<Rightarrow> ss_view \<times> 'srv" where
  "revertAlert api alert = (\<lambda>(v, srv).
     if \<not> is_resolved alert then (v, srv)
     else
       (case api_revertAlert api (alert_id alert) srv of
          (srv1, ok) \<Rightarrow>
            if ok then loadAlerts api (loadSensors api (v, srv1))
            else (v\<lparr>resolveError := ''Failed to resolve alert''\<rparr>, srv1)))"

subsection \<open>A server that records the requests it receives\<close>

datatype request =
    AddSensor "jsval sensor"
  | UpdateSensor string sensor_update
  | ResolveAlert nat
  | RevertAlert nat

text \<open>
  Used to observe what the view sends: every writing request is appended to the log and
  answered with success, every listing is empty.
\<close>

definition recording_api :: "request list ss_api" where
  "recording_api =
     \<lparr>api_addSensor = (\<lambda>payload log. (log @ [AddSensor payload], True)),
      api_updateSensor = (\<lambda>sid update log. (log @ [UpdateSensor sid update], True)),
      api_getAllSensors = (\<lambda>log. Some []),
      api_getSSInfo = (\<lambda>log. Some JNull),
      api_getAlerts = (\<lambda>log. Some []),
      api_resolveAlert = (\<lambda>alertId log. (log @ [ResolveAlert alertId], True)),
      api_revertAlert = (\<lambda>alertId log. (log @ [RevertAlert alertId], True))\<rparr>"

text \<open>The number of selected Limit Configs a writing request carries.\<close>

fun selected_in :: "request \<Rightarrow> nat" where
  "selected_in (AddSensor payload) =
     (case limits payload of None \<Rightarrow> 0 | Some ls \<Rightarrow> length (filter is_selected ls))"
| "selected_in (UpdateSensor sid update) = length (filter is_selected (upd_limits update))"
| "selected_in (ResolveAlert alertId) = 0"
| "selected_in (RevertAlert alertId) = 0"

section \<open>The backend contracts\<close>

text \<open>
  The alert manager, the limit evaluator and the ACL evaluator run in the backend,
  whose sources are not part of the frontend tree; the view reaches them through REST
  calls. They are modelled here from their contracts.
\<close>

subsection \<open>Alert lifecycle\<close>

text \<open>
  Modelled from the spec: the reply of the backend's \<^verbatim>\<open>resolve\<close> and \<^verbatim>\<open>revert\<close>
  (absent from the sources), which carries the alert's state after an accepted
  transition and its current state after a rejected one.
\<close>

datatype reply = Accepted alert | Rejected alert | NotFound

text \<open>
  Modelled from the spec: the backend's \<^verbatim>\<open>resolve(alert_id)\<close> (absent from the sources):
  "Triggered to Resolved: explicit resolve(alert_id) call; sets resolved_at = now;
  rejects (no-op, returns current state) if already resolved."
\<close>

fun resolve :: "nat \<Rightarrow> nat \<Rightarrow> alert list \<Rightarrow> alert list \<times> reply" where
  "resolve now i [] = ([], NotFound)"
| "resolve now i (a # as) =
     (if alert_id a = i then
        (if is_resolved a then (a # as, Rejected a)
         else (a\<lparr>is_resolved := True, resolved_at := Some now\<rparr> # as,
               Accepted (a\<lparr>is_resolved := True, resolved_at := Some now\<rparr>)))
      else (case resolve now i as of (as', r) \<Rightarrow> (a # as', r)))"

text \<open>
  Modelled from the spec: the backend's \<^verbatim>\<open>revert(alert_id)\<close> (absent from the sources):
  "Resolved to Triggered (revert): explicit revert(alert_id) call; clears resolved_at;
  rejects if currently unresolved."
\<close>

fun revert :: "nat \<Rightarrow> alert list \<Rightarrow> alert list \<times> reply" where
  "revert i [] = ([], NotFound)"
| "revert i (a # as) =
     (if alert_id a = i then
        (if \<not> is_resolved a then (a # as, Rejected a)
         else (a\<lparr>is_resolved := False, resolved_at := None\<rparr> # as,
               Accepted (a\<lparr>is_resolved := False, resolved_at := None\<rparr>)))
      else (case revert i as of (as', r) \<Rightarrow> (a # as', r)))"

text \<open>The stored alert with a given id.\<close>

definition alert_with :: "nat \<Rightarrow> alert list \<Rightarrow> alert option" where
  "alert_with i as = find (\<lambda>a. alert_id a = i) as"

subsection \<open>Sensor limit evaluator\<close>

text \<open>Modelled from the spec: the alert types of a breach, \<^verbatim>\<open>upper_breach\<close> and \<^verbatim>\<open>lower_breach\<close>.\<close>

datatype breach_type = upper_breach | lower_breach

text \<open>
  Modelled from the spec: the result of the evaluator, "BreachResult{alert: bool,
  alert_type, limit_value}"; the last two are absent when there is no breach.
\<close>

record breach_result =
  alert :: bool
  alert_type :: "breach_type option"
  limit_value :: "real option"

text \<open>Modelled from the spec: the errors of the taxonomy that the evaluator returns.\<close>

datatype eval_error = ValidationError | ConfigurationError

definition no_breach :: breach_result where
  "no_breach = \<lparr>alert = False, alert_type = None, limit_value = None\<rparr>"

definition breach :: "breach_type \<Rightarrow> real \<Rightarrow> breach_result" where
  "breach t l = \<lparr>alert = True, alert_type = Some t, limit_value = Some l\<rparr>"

text \<open>
  Modelled from the spec: the evaluation of a reading against one Limit Config (absent
  from the sources): "value > upper_limit gives alert_type = upper_breach; value <
  lower_limit gives alert_type = lower_breach; unit mismatch between reading and Limit
  Config is a validation error (reject, do not silently coerce)". The conditions are
  tested in the order in which the contract lists them.
\<close>

definition evaluate_limit :: "real limit_config \<Rightarrow> real \<Rightarrow> string \<Rightarrow> eval_error + breach_result" where
  "evaluate_limit lc v u =
     (if u \<noteq> unit lc then Inl ValidationError
      else if v > upper_limit lc then Inr (breach upper_breach (upper_limit lc))
      else if v < lower_limit lc then Inr (breach lower_breach (lower_limit lc))
      else Inr no_breach)"

text \<open>
  Modelled from the spec: \<^verbatim>\<open>evaluate(sensor_id, value, unit)\<close> (absent from the sources):
  the sensor is resolved by id; the evaluator "uses the single Limit Config with
  is_selected = true; if none selected, evaluator returns no-breach (fail-open)". A
  missing sensor is the configuration error of the taxonomy.
\<close>

definition evaluate ::
  "real sensor list \<Rightarrow> string \<Rightarrow> real \<Rightarrow> string \<Rightarrow> eval_error + breach_result" where
  "evaluate ss sid v u =
     (case find (\<lambda>s. sensor_id s = sid) ss of
        None \<Rightarrow> Inl ConfigurationError
      | Some s \<Rightarrow>
          (case filter is_selected (case limits s of None \<Rightarrow> [] | Some ls \<Rightarrow> ls) of
             [] \<Rightarrow> Inr no_breach
           | lc # rest \<Rightarrow> evaluate_limit lc v u))"

subsection \<open>ACL evaluator\<close>

text \<open>Modelled from the spec: the actions of a Permission Rule, \<^verbatim>\<open>publish\<close> and \<^verbatim>\<open>subscribe\<close>.\<close>

datatype action = publish | subscribe

text \<open>
  Modelled from the spec: a Permission Rule, "topic pattern (supports single-level +
  and multi-level # wildcards, MQTT-style), allow-set and deny-set of actions".
\<close>

record permission_rule =
  rule_pattern :: string
  allow :: "action list"
  deny :: "action list"

text \<open>Modelled from the spec: a Role, "name (unique), description, ordered list of Permission Rules".\<close>

record role =
  role_name :: string
  description :: string
  rules :: "permission_rule list"

text \<open>
  Modelled from the spec: a Principal, "identifier (string, unique), ordered set of role
  names, list of custom permission entries".
\<close>

record principal =
  user_id :: string
  role_names :: "string list"
  custom_permissions :: "permission_rule list"

text \<open>Modelled from the spec: "the configured default policy (allow or deny)".\<close>

datatype policy = default_allow | default_denied

text \<open>Modelled from the spec: a rule snapshot, the rule set that a reload swaps as a whole.\<close>

record rule_snapshot =
  principals :: "principal list"
  roles :: "role list"
  default_policy :: policy

text \<open>
  Modelled from the spec: the decision, "Allowed | Denied(reason)" with the reasons
  \<^verbatim>\<open>no_matching_rule\<close>, \<^verbatim>\<open>explicit_deny\<close>, \<^verbatim>\<open>default_deny\<close>.
\<close>

datatype reason = no_matching_rule | explicit_deny | default_deny

datatype decision = Allowed | Denied reason

text \<open>Modelled from the spec: a topic or pattern is "hierarchical slash-delimited"; its levels.\<close>

fun levels :: "string \<Rightarrow> string list" where
  "levels [] = [[]]"
| "levels (c # cs) =
     (if c = CHR ''/'' then [] # levels cs
      else (case levels cs of [] \<Rightarrow> [[c]] | w # rest \<Rightarrow> (c # w) # rest))"

text \<open>
  Modelled from the spec: MQTT wildcard matching, "+ matches exactly one topic level,
  # matches all remaining levels and must be the final token".
\<close>

fun matches :: "string list \<Rightarrow> string list \<Rightarrow> bool" where
  "matches [] ts = (ts = [])"
| "matches (p # ps) ts =
     (if p = ''#'' then ps = []
      else (case ts of
              [] \<Rightarrow> False
            | t # ts' \<Rightarrow> (p = ''+'' \<or> p = t) \<and> matches ps ts'))"

text \<open>
  Modelled from the spec: the two measures of specificity, "fewest wildcard tokens,
  longest literal prefix", counted in levels.
\<close>

definition is_wildcard :: "string \<Rightarrow> bool" where
  "is_wildcard p = (p = ''+'' \<or> p = ''#'')"

definition wildcards :: "string list \<Rightarrow> nat" where
  "wildcards ps = length (filter is_wildcard ps)"

definition literal_prefix :: "string list \<Rightarrow> nat" where
  "literal_prefix ps = length (takeWhile (\<lambda>p. \<not> is_wildcard p) ps)"

text \<open>
  Modelled from the spec: one rule is more specific than another when it has fewer
  wildcard tokens or, with as many, a longer literal prefix.
\<close>

definition more_specific :: "permission_rule \<Rightarrow> permission_rule \<Rightarrow> bool" where
  "more_specific r r' =
     (let p = levels (rule_pattern r); p' = levels (rule_pattern r')
      in wildcards p < wildcards p' \<or>
         (wildcards p = wildcards p' \<and> literal_prefix p > literal_prefix p'))"

text \<open>
  Modelled from the spec: "collect the union of Permission Rules from all roles assigned
  to user_id plus the user's custom permissions".
\<close>

definition rules_of :: "rule_snapshot \<Rightarrow> string \<Rightarrow> permission_rule list" where
  "rules_of snap user =
     concat (map (\<lambda>u.
       concat (map (\<lambda>rn. concat (map rules (filter (\<lambda>r. role_name r = rn) (roles snap))))
                (role_names u))
       @ custom_permissions u)
       (filter (\<lambda>u. user_id u = user) (principals snap)))"

text \<open>
  Modelled from the spec: the rules matching a query, those "whose pattern matches topic
  under MQTT wildcard semantics" and that allow or deny the action (a rule that names
  only other actions leaves the query to the default policy, as in the scenario of the
  viewer who may subscribe and asks to publish).
\<close>

definition matching_rules :: "rule_snapshot \<Rightarrow> string \<Rightarrow> string \<Rightarrow> action \<Rightarrow> permission_rule list" where
  "matching_rules snap user topic act =
     filter (\<lambda>r. matches (levels (rule_pattern r)) (levels topic) \<and>
                 (act \<in> set (allow r) \<or> act \<in> set (deny r)))
       (rules_of snap user)"

text \<open>Modelled from the spec: the most specific of a list of rules.\<close>

definition most_specific :: "permission_rule list \<Rightarrow> permission_rule list" where
  "most_specific rs = filter (\<lambda>r. list_all (\<lambda>r'. \<not> more_specific r' r) rs) rs"

text \<open>
  Modelled from the spec: "among matching rules, select the most specific as the
  effective rule; on a tie, a deny on action beats an allow".
\<close>

definition effective_rule :: "permission_rule list \<Rightarrow> action \<Rightarrow> permission_rule option" where
  "effective_rule rs act =
     (case filter (\<lambda>r. act \<in> set (deny r)) (most_specific rs) of
        d # ds \<Rightarrow> Some d
      | [] \<Rightarrow> (case most_specific rs of [] \<Rightarrow> None | b # bs \<Rightarrow> Some b))"

text \<open>
  Modelled from the spec: the decision of \<^verbatim>\<open>authorize\<close> on a snapshot: the effective
  rule decides; "if no rule matches, defer to the configured default policy".
\<close>

definition decide :: "rule_snapshot \<Rightarrow> string \<Rightarrow> string \<Rightarrow> action \<Rightarrow> decision" where
  "decide snap user topic act =
     (case effective_rule (matching_rules snap user topic act) act of
        None \<Rightarrow> (case default_policy snap of
                   default_allow \<Rightarrow> Allowed
                 | default_denied \<Rightarrow> Denied no_matching_rule)
      | Some r \<Rightarrow> if act \<in> set (deny r) then Denied explicit_deny else Allowed)"

section \<open>Properties\<close>

text \<open>
  Two states of the service agree on everything but the console, the handler arrays and
  the state of the views.
\<close>

definition service_unchanged :: "'a world \<Rightarrow> 'a world \<Rightarrow> bool" where
  "service_unchanged s s' \<longleftrightarrow>
     ws s' = ws s \<and> reconnectAttempts s' = reconnectAttempts s \<and>
     maxReconnectAttempts s' = maxReconnectAttempts s \<and> reconnectDelay s' = reconnectDelay s \<and>
     callbacks s' = callbacks s \<and> isConnecting s' = isConnecting s \<and>
     isManuallyDisconnected s' = isManuallyDisconnected s \<and>
     currentUserId s' = currentUserId s \<and> currentUrl s' = currentUrl s \<and>
     sockets s' = sockets s \<and> timers s' = timers s"

subsection \<open>Example states\<close>

text \<open>
  Two functions that record their call in a list, the first of which then throws; they
  are registered for sensor data in this order.
\<close>

definition recorders :: "nat \<Rightarrow> nat list handler" where
  "recorders h =
     (if h = 1 then (\<lambda>data a. Throw (JStr ''boom'') (a @ [1], []))
      else (\<lambda>data a. Normal (a @ [h], [])))"

definition example_handlers :: "nat list world" where
  "example_handlers = on ''sensor_data'' 2 (on ''sensor_data'' 1 (constructor recorders []))"

text \<open>The same, but the first function unregisters itself before it throws.\<close>

definition self_removing :: "nat \<Rightarrow> nat list handler" where
  "self_removing h =
     (if h = 1 then (\<lambda>data a. Throw (JStr ''boom'') (a @ [1], [CallOff ''sensor_data'' 1]))
      else (\<lambda>data a. Normal (a @ [h], [])))"

definition self_removing_handlers :: "nat list world" where
  "self_removing_handlers =
     on ''sensor_data'' 2 (on ''sensor_data'' 1 (constructor self_removing []))"

definition closed_connection :: "unit world" where
  "closed_connection =
     (constructor (\<lambda>h. no_op) ())\<lparr>ws := Some 0,
        sockets := [\<lparr>readyState = CLOSED, url = ''ws://localhost:8000/ws/ws?user_id=erkam'', outbox = []\<rparr>]\<rparr>"

text \<open>A service whose connection was lost: a reconnect timer is pending.\<close>

definition lost_connection :: "unit world" where
  "lost_connection =
     (constructor (\<lambda>h. no_op) ())\<lparr>reconnectAttempts := 1, currentUserId := Some ''erkam'',
        currentUrl := Some ''ws://localhost:8000/ws/ws'', timers := [(1000, True)]\<rparr>"

definition after_disconnect :: "event list" where
  "after_disconnect = [TimerFires 0 True, SocketError 0 JNull, Send get_status_envelope]"

text \<open>A dashboard that has received nothing yet, and a store whose alert buffer is full.\<close>

definition empty_dashboard :: dashboard where
  "empty_dashboard =
     \<lparr>isLoading = False, hasData = False, isConnected = True, connectionStatus = ''Connected'',
      devices = [], latestSensorData = [], activeUsers = JArr [], systemAlerts = [],
      aclInfo = JNull, ssInfo = JNull, toasts = [], logged = []\<rparr>"

definition full_store :: iot_store where
  "full_store =
     \<lparr>store_devices = [], store_latestSensorData = [], store_activeUsers = [],
      store_systemAlerts = replicate 20 JNull, store_isLoading = False, store_error = JNull,
      backendHealth = JNull, databaseStatus = JNull\<rparr>"

definition temperature_message :: jsval where
  "temperature_message =
     JObj [(''type'', JStr ''sensor_data''), (''topic'', JStr ''sf/sensors/device1/temperature''),
           (''data'', JObj [(''device_id'', JStr ''device1''), (''sensor_type'', JStr ''temperature''),
                            (''value'', JNum 35), (''unit'', JStr ''C'')])]"

text \<open>
  A stand-in for the serialiser that writes only the type of an envelope, and a
  dashboard whose connection is open.
\<close>

definition type_only :: "jsval \<Rightarrow> jsval + string" where
  "type_only v = (case field ''type'' v of JStr t \<Rightarrow> Inr t | _ \<Rightarrow> Inl TypeError)"

definition open_connection :: "dashboard world" where
  "open_connection =
     (constructor (\<lambda>h. no_op) empty_dashboard)\<lparr>ws := Some 0,
        sockets := [\<lparr>readyState = OPEN, url = ''ws://localhost:8000/ws/ws?user_id=erkam'', outbox = []\<rparr>]\<rparr>"

text \<open>
  The view as it is first shown, and the create form after the toggle of its only Limit
  Config has been switched off.
\<close>

definition initial_view :: ss_view where
  "initial_view =
     \<lparr>sensors = [], filteredSensors = [], alerts = [], ss_info = JNull, newSensor = blank_sensor,
      editingSensor = None, showEditModal = False, addError = [], updateError = [],
      resolveError = [], ss_toasts = []\<rparr>"

definition none_selected :: ss_view where
  "none_selected = toggle_selected 0 initial_view"

text \<open>An alert of sensor \<^verbatim>\<open>temp01\<close>, unresolved, and the same alert once resolved.\<close>

definition triggered_alert :: alert where
  "triggered_alert =
     \<lparr>alert_id = 7, alert_sensor_id = ''temp01'', alert_kind = ''upper_breach'',
      alert_message = ''Value above upper limit'', triggered_value = 35, alert_limit = 30,
      alert_unit = ''C'', mqtt_topic = ''sf/sensors/temp01/temperature'', raw_data = JNull,
      triggered_at = 1000, is_resolved = False, resolved_at = None\<rparr>"

definition resolved_alert :: alert where
  "resolved_alert = triggered_alert\<lparr>is_resolved := True, resolved_at := Some 2000\<rparr>"

text \<open>
  The sensor of the scenario: \<^verbatim>\<open>temp01\<close> with the selected limit upper 30, lower 10,
  unit C, and a second config that is not selected.
\<close>

definition temp01 :: "real sensor" where
  "temp01 =
     \<lparr>sensor_id = ''temp01'', pattern = ''sf/sensors/temp01/temperature'',
      sensor_type = ''temperature'', is_active = True,
      limits = Some [\<lparr>name = ''strict'', upper_limit = 25, lower_limit = 15, unit = ''C'',
                       is_selected = False\<rparr>,
                     \<lparr>name = ''default'', upper_limit = 30, lower_limit = 10, unit = ''C'',
                       is_selected = True\<rparr>]\<rparr>"

text \<open>
  The rule set of the tie-break scenario: an operator may publish and subscribe on the
  temperature of every device, and may not publish on that of \<^verbatim>\<open>device1\<close>.
\<close>

definition operator_rules :: rule_snapshot where
  "operator_rules =
     \<lparr>principals = [\<lparr>user_id = ''alice'', role_names = [''operator''], custom_permissions = []\<rparr>],
      roles = [\<lparr>role_name = ''operator'', description = ''Plant operator'',
                 rules = [\<lparr>rule_pattern = ''sf/sensors/+/temperature'',
                            allow = [publish, subscribe], deny = []\<rparr>,
                          \<lparr>rule_pattern = ''sf/sensors/device1/temperature'',
                            allow = [], deny = [publish]\<rparr>]\<rparr>],
      default_policy = default_denied\<rparr>"

text \<open>
  A rule set with a tie: an allow and a deny of equal specificity (one wildcard, two
  literal levels before it) both match the temperature topics.
\<close>

definition tied_rules :: rule_snapshot where
  "tied_rules =
     \<lparr>principals = [\<lparr>user_id = ''alice'', role_names = [],
                      custom_permissions =
                        [\<lparr>rule_pattern = ''sf/sensors/+/temperature'', allow = [publish], deny = []\<rparr>,
                         \<lparr>rule_pattern = ''sf/sensors/#'', allow = [], deny = [publish]\<rparr>]\<rparr>],
      roles = [], default_policy = default_allow\<rparr>"

text \<open>The create form with a second Limit Config added and selected as well.\<close>

definition two_selected :: ss_view where
  "two_selected = toggle_selected 1 (addLimitConfig (\<lambda>n. ''2'') initial_view)"


text \<open>
  A message whose device id cannot be converted to a string, and an alert whose message
  cannot.
\<close>

definition odd_device_message :: jsval where
  "odd_device_message =
     JObj [(''type'', JStr ''sensor_data''), (''topic'', JStr ''sf/sensors/x/temperature''),
           (''data'', JObj [(''device_id'', JObj [(''toString'', JNum 1)]), (''value'', JNum 35)])]"

definition odd_alert_message :: jsval where
  "odd_alert_message =
     JObj [(''type'', JStr ''system_alert''), (''level'', JStr ''critical''),
           (''message'', JObj [(''toString'', JNum 1)])]"

text \<open>
  A stand-in for the evaluation of an object literal that keeps its properties and takes
  nothing from its spreads, as for the spread of \<^verbatim>\<open>undefined\<close> or of an empty object.
\<close>

definition properties_only :: "literal_part list \<Rightarrow> jsval" where
  "properties_only parts =
     JObj (concat (map (\<lambda>p. case p of Property k v \<Rightarrow> [(k, v)] | Spread v \<Rightarrow> []) parts))"

text \<open>
  The create form filled in for a sensor \<^verbatim>\<open>temp02\<close>, with its only Limit Config not
  selected, and the edit form opened on a sensor whose only Limit Config is not selected.
\<close>

definition filled_none_selected :: ss_view where
  "filled_none_selected =
     toggle_selected 0
       (initial_view\<lparr>newSensor :=
          \<lparr>sensorId = ''temp02'', new_pattern = ''sf/sensors/temp02/temperature'',
           sensorType = ''temperature'', new_is_active = True,
           new_limits = [\<lparr>name = ''default'', upper_limit = JStr ''30'', lower_limit = JStr ''10'',
                           unit = ''C'', is_selected = True\<rparr>]\<rparr>\<rparr>)"

definition editing_none_selected :: ss_view where
  "editing_none_selected =
     editSensor
       \<lparr>sensor_id = ''temp02'', pattern = ''sf/sensors/temp02/temperature'',
        sensor_type = ''temperature'', is_active = True,
        limits = Some [\<lparr>name = ''default'', upper_limit = JNum 30, lower_limit = JNum 10,
                         unit = ''C'', is_selected = False\<rparr>]\<rparr>
       initial_view"

section \<open>Theorems\<close>


subsection \<open>Handlers cannot break the dispatcher\<close>

lemma service_unchanged_refl: "service_unchanged s s"
  by (simp add: service_unchanged_def)

lemma service_unchanged_trans:
  "service_unchanged s s1 \<Longrightarrow> service_unchanged s1 s2 \<Longrightarrow> service_unchanged s s2"
  by (simp add: service_unchanged_def)

lemma on_frame: "service_unchanged s (on t h s) \<and> app (on t h s) = app s"
  by (simp add: on_def push_handler_def console_out_def service_unchanged_def
      split: option.splits)

lemma off_frame: "service_unchanged s (off t h s) \<and> app (off t h s) = app s"
  by (simp add: off_def Let_def service_unchanged_def split: option.splits)

lemma make_call_frame: "service_unchanged s (make_call c s) \<and> app (make_call c s) = app s"
  by (cases c) (simp_all add: on_frame off_frame)

lemma registry_calls_frame:
  "service_unchanged s (registry_calls cs s) \<and> app (registry_calls cs s) = app s"
  unfolding registry_calls_def
proof (induction cs arbitrary: s)
  case Nil
  then show ?case by (simp add: service_unchanged_refl)
next
  case (Cons c cs)
  from make_call_frame [of s c] Cons.IH [of "make_call c s"] show ?case
    by (auto intro: service_unchanged_trans)
qed

lemma notify_callback_normal:
  "\<exists>s'. notify_callback type data h s = Normal s' \<and> service_unchanged s s'"
proof (cases "callbacks s h data (app s)")
  case (Normal r)
  obtain a cs where r: "r = (a, cs)" by (cases r)
  from registry_calls_frame [of "s\<lparr>app := a\<rparr>" cs] Normal r show ?thesis
    by (simp add: notify_callback_def try_catch_def invoke_def service_unchanged_def)
next
  case (Throw e r)
  obtain a cs where r: "r = (a, cs)" by (cases r)
  from registry_calls_frame [of "s\<lparr>app := a\<rparr>" cs] Throw r show ?thesis
    by (simp add: notify_callback_def try_catch_def invoke_def service_unchanged_def
        console_out_def)
qed

lemma forEach_notify_callback:
  "\<exists>s'. forEach (notify_callback type data) array k n s = Normal s' \<and> service_unchanged s s'"
proof (induction n arbitrary: k s)
  case 0
  then show ?case by (simp add: service_unchanged_refl)
next
  case (Suc n)
  show ?case
  proof (cases "k < length (array s)")
    case True
    obtain s1 where s1: "notify_callback type data (array s ! k) s = Normal s1"
      "service_unchanged s s1"
      using notify_callback_normal by blast
    obtain s2 where "forEach (notify_callback type data) array (Suc k) n s1 = Normal s2"
      "service_unchanged s1 s2"
      using Suc.IH by blast
    with s1 True show ?thesis by (auto intro: service_unchanged_trans)
  next
    case False
    with Suc.IH [of "Suc k" s] show ?thesis by simp
  qed
qed

lemma notifyHandlers_normal:
  "\<exists>s'. notifyHandlers type data s = Normal s' \<and> service_unchanged s s'"
  using forEach_notify_callback [of type data _ 0 _ s]
  by (auto simp: notifyHandlers_def service_unchanged_refl split: option.splits)

text \<open>What a call of \<^verbatim>\<open>on\<close> or \<^verbatim>\<open>off\<close> for one type leaves alone: the other types.\<close>

lemma make_call_other:
  "call_type c \<noteq> t \<Longrightarrow>
     arrays (make_call c s) t = arrays s t \<and>
     messageHandlers (make_call c s) t = messageHandlers s t \<and>
     callbacks (make_call c s) = callbacks s"
  by (cases c)
     (auto simp: on_def off_def push_handler_def console_out_def Let_def split: option.splits)

lemma registry_calls_other:
  "\<forall>c \<in> set cs. call_type c \<noteq> t \<Longrightarrow>
     arrays (registry_calls cs s) t = arrays s t \<and>
     messageHandlers (registry_calls cs s) t = messageHandlers s t \<and>
     callbacks (registry_calls cs s) = callbacks s"
  unfolding registry_calls_def
proof (induction cs arbitrary: s)
  case Nil
  then show ?case by simp
next
  case (Cons c cs)
  from Cons.prems have c: "call_type c \<noteq> t" and cs: "\<forall>c \<in> set cs. call_type c \<noteq> t"
    by simp_all
  from make_call_other [OF c, of s] Cons.IH [OF cs, of "make_call c s"] show ?case by simp
qed

lemma notify_callback_other:
  assumes "\<forall>c \<in> set (snd (state_of (callbacks s h data (app s)))). call_type c \<noteq> t"
  shows "\<exists>s'. notify_callback type data h s = Normal s' \<and>
           app s' = fst (state_of (callbacks s h data (app s))) \<and>
           arrays s' t = arrays s t \<and> messageHandlers s' t = messageHandlers s t \<and>
           callbacks s' = callbacks s"
proof (cases "callbacks s h data (app s)")
  case (Normal r)
  obtain a cs where r: "r = (a, cs)" by (cases r)
  with assms Normal have "\<forall>c \<in> set cs. call_type c \<noteq> t" by simp
  from registry_calls_other [OF this, of "s\<lparr>app := a\<rparr>"]
    registry_calls_frame [of "s\<lparr>app := a\<rparr>" cs] Normal r
  show ?thesis
    by (simp add: notify_callback_def try_catch_def invoke_def)
next
  case (Throw e r)
  obtain a cs where r: "r = (a, cs)" by (cases r)
  with assms Throw have "\<forall>c \<in> set cs. call_type c \<noteq> t" by simp
  from registry_calls_other [OF this, of "s\<lparr>app := a\<rparr>"]
    registry_calls_frame [of "s\<lparr>app := a\<rparr>" cs] Throw r
  show ?thesis
    by (simp add: notify_callback_def try_catch_def invoke_def console_out_def)
qed

lemma forEach_all_invoked:
  assumes "\<forall>h \<in> set hs. \<forall>a. \<forall>c \<in> set (snd (state_of (F h data a))). call_type c \<noteq> type"
    and "arrays s type g = hs" and "callbacks s = F" and "k + n = length hs"
  shows "\<exists>s'. forEach (notify_callback type data) (\<lambda>s'. arrays s' type g) k n s = Normal s' \<and>
           app s' = fold (\<lambda>h a. fst (state_of (F h data a))) (drop k hs) (app s) \<and>
           arrays s' type = arrays s type \<and> messageHandlers s' type = messageHandlers s type"
  using assms(2-)
proof (induction n arbitrary: k s)
  case 0
  then show ?case by simp
next
  case (Suc n)
  from Suc.prems have k: "k < length hs" by simp
  then have d: "drop k hs = hs ! k # drop (Suc k) hs" by (simp add: Cons_nth_drop_Suc)
  from k have "hs ! k \<in> set hs" by simp
  with assms(1)
  have "\<forall>c \<in> set (snd (state_of (F (hs ! k) data (app s)))). call_type c \<noteq> type"
    by blast
  with Suc.prems
  have q: "\<forall>c \<in> set (snd (state_of (callbacks s (hs ! k) data (app s)))). call_type c \<noteq> type"
    by simp
  from notify_callback_other [OF q, of type]
  obtain s1 where s1: "notify_callback type data (hs ! k) s = Normal s1"
    "app s1 = fst (state_of (callbacks s (hs ! k) data (app s)))"
    "arrays s1 type = arrays s type" "messageHandlers s1 type = messageHandlers s type"
    "callbacks s1 = callbacks s"
    by blast
  from s1 Suc.prems have p: "arrays s1 type g = hs" "callbacks s1 = F" "Suc k + n = length hs"
    by simp_all
  from Suc.IH [OF p] s1 Suc.prems k d show ?case by simp
qed


lemma notifyHandlers_all_invoked:
  assumes "\<forall>h \<in> set (handlers_of s type). \<forall>a.
             \<forall>c \<in> set (snd (state_of (callbacks s h data a))). call_type c \<noteq> type"
  shows "app (state_of (notifyHandlers type data s)) =
           fold (\<lambda>h a. fst (state_of (callbacks s h data a))) (handlers_of s type) (app s) \<and>
         handlers_of (state_of (notifyHandlers type data s)) type = handlers_of s type"
proof (cases "messageHandlers s type")
  case None
  then show ?thesis by (simp add: notifyHandlers_def handlers_of_def)
next
  case (Some g)
  with assms have q: "\<forall>h \<in> set (arrays s type g). \<forall>a.
             \<forall>c \<in> set (snd (state_of (callbacks s h data a))). call_type c \<noteq> type"
    by (simp add: handlers_of_def)
  from forEach_all_invoked [OF q refl refl, of 0 "length (arrays s type g)"]
  obtain s' where "forEach (notify_callback type data) (\<lambda>s'. arrays s' type g) 0
        (length (arrays s type g)) s = Normal s'"
    "app s' = fold (\<lambda>h a. fst (state_of (callbacks s h data a))) (arrays s type g) (app s)"
    "arrays s' type = arrays s type" "messageHandlers s' type = messageHandlers s type"
    by auto
  with Some show ?thesis by (simp add: notifyHandlers_def handlers_of_def)
qed

text \<open>
  C7 (amended). Whatever the handlers registered for a type do (throw, register,
  unregister), \<^verbatim>\<open>notifyHandlers\<close> returns normally. If none of them calls \<^verbatim>\<open>on\<close> or
  \<^verbatim>\<open>off\<close> for the type that is being dispatched, every handler registered for the type
  is invoked, in registration order and each from the state the previous one left,
  whichever of them throw (a throwing handler leaves the state it had reached), and
  the handlers of the type are the same afterwards.
\<close>

theorem notifyHandlers_isolates_failures:
  "(\<exists>s'. notifyHandlers type data s = Normal s') \<and>
   ((\<forall>h \<in> set (handlers_of s type). \<forall>a.
       \<forall>c \<in> set (snd (state_of (callbacks s h data a))). call_type c \<noteq> type) \<longrightarrow>
      app (state_of (notifyHandlers type data s)) =
        fold (\<lambda>h a. fst (state_of (callbacks s h data a))) (handlers_of s type) (app s) \<and>
      handlers_of (state_of (notifyHandlers type data s)) type = handlers_of s type)"
  using notifyHandlers_normal [of type data s] notifyHandlers_all_invoked [of s type data]
  by blast

lemma example_handlers_registered:
  "handlers_of example_handlers ''sensor_data'' = [1, 2] \<and>
   callbacks example_handlers = recorders \<and> app example_handlers = []"
  by (simp add: example_handlers_def on_def push_handler_def console_out_def constructor_def
      handlers_of_def)

theorem notifyHandlers_isolates_failures_witness:
  "handlers_of example_handlers ''sensor_data'' = [1, 2] \<and>
   threw (recorders 1 JNull []) \<and>
   app (state_of (notifyHandlers ''sensor_data'' JNull example_handlers)) = [1, 2]"
proof -
  have q: "\<forall>h \<in> set (handlers_of example_handlers ''sensor_data''). \<forall>a.
       \<forall>c \<in> set (snd (state_of (callbacks example_handlers h JNull a))).
         call_type c \<noteq> ''sensor_data''"
    by (simp add: example_handlers_registered recorders_def)
  from q notifyHandlers_isolates_failures [of "''sensor_data''" JNull example_handlers]
  have "app (state_of (notifyHandlers ''sensor_data'' JNull example_handlers)) =
        fold (\<lambda>h a. fst (state_of (callbacks example_handlers h JNull a)))
          (handlers_of example_handlers ''sensor_data'') (app example_handlers)"
    by blast
  then have "app (state_of (notifyHandlers ''sensor_data'' JNull example_handlers)) = [1, 2]"
    by (simp add: example_handlers_registered recorders_def)
  then show ?thesis
    by (simp add: example_handlers_registered recorders_def)
qed

lemma self_removing_registered:
  "messageHandlers self_removing_handlers ''sensor_data'' = Some 0 \<and>
   arrays self_removing_handlers ''sensor_data'' 0 = [1, 2] \<and>
   callbacks self_removing_handlers = self_removing \<and> app self_removing_handlers = []"
  by (simp add: self_removing_handlers_def on_def push_handler_def console_out_def
      constructor_def)

text \<open>
  Two handlers are registered; the first records its call, unregisters itself and
  throws. The loop then finds no element at index 1 of the array, and the second
  handler is not invoked.
\<close>

theorem notifyHandlers_isolates_failures_counterexample:
  "handlers_of self_removing_handlers ''sensor_data'' = [1, 2] \<and>
   threw (self_removing 1 JNull []) \<and>
   app (state_of (notifyHandlers ''sensor_data'' JNull self_removing_handlers)) = [1]"
  using self_removing_registered
  by (simp add: handlers_of_def notifyHandlers_def notify_callback_def try_catch_def
      invoke_def self_removing_def registry_calls_def off_def console_out_def Let_def
      numeral_2_eq_2)


subsection \<open>Sending on a connection that is not open\<close>

text \<open>
  C8. \<^verbatim>\<open>send\<close> always returns normally. When the current socket is absent or not
  OPEN its only effect is the warning on the console: no socket is touched. A frame
  reaches a socket only if the current socket is OPEN.
\<close>

theorem send_never_throws:
  "\<exists>s'. send stringify msg s = Normal s' \<and>
        (\<not> ws_open s \<longrightarrow>
           s' = console_out LWarn ''WebSocket not connected, cannot send message:'' s \<and>
           sockets s' = sockets s) \<and>
        (sockets s' \<noteq> sockets s \<longrightarrow> ws_open s)"
  by (auto simp: send_def try_catch_def send_body_def console_out_def split: sum.splits)

theorem send_never_throws_witness:
  "\<not> ws_open closed_connection \<and>
   send (\<lambda>v. Inr ''{}'') get_status_envelope closed_connection =
     Normal (console_out LWarn ''WebSocket not connected, cannot send message:'' closed_connection) \<and>
   \<not> ws_open (constructor (\<lambda>h. no_op) ()) \<and>
   send (\<lambda>v. Inr ''{}'') get_status_envelope (constructor (\<lambda>h. no_op) ()) =
     Normal (console_out LWarn ''WebSocket not connected, cannot send message:'' (constructor (\<lambda>h. no_op) ())) \<and>
   ws_open open_connection \<and>
   map outbox (sockets (state_of (send type_only get_status_envelope open_connection))) =
     [[''get_status'']]"
proof -
  have "map outbox (sockets (state_of (send type_only get_status_envelope open_connection))) =
          [[''get_status'']]"
    by (simp add: send_def ws_open_def open_connection_def constructor_def try_catch_def
        send_body_def messageStr_def get_status_envelope_def type_only_def field_def
        ws_send_def console_out_def)
  moreover have "ws_open open_connection"
    by (simp add: ws_open_def open_connection_def constructor_def)
  ultimately show ?thesis
    using send_never_throws [of "\<lambda>v. Inr ''{}''" get_status_envelope closed_connection]
      send_never_throws [of "\<lambda>v. Inr ''{}''" get_status_envelope "constructor (\<lambda>h. no_op) ()"]
      send_never_throws [of type_only get_status_envelope open_connection]
    by (auto simp: ws_open_def closed_connection_def constructor_def)
qed


subsection \<open>No reconnection after a manual disconnect\<close>

lemma handleMessage_frame: "service_unchanged s (state_of (handleMessage m s))"
proof (cases "get_prop ''type'' m")
  case (Inl e)
  then show ?thesis by (simp add: handleMessage_def service_unchanged_refl)
next
  case (Inr ty)
  define first where "first = (\<lambda>s::'a world. if truthy ty
                  then (case ty of JStr t \<Rightarrow> notifyHandlers t m s | _ \<Rightarrow> Normal s)
                  else Normal s)"
  have "\<exists>s'. first s = Normal s' \<and> service_unchanged s s'"
    using notifyHandlers_normal [of _ m s]
    by (cases ty) (auto simp: first_def service_unchanged_refl)
  then obtain s1 where s1: "first s = Normal s1" "service_unchanged s s1" by blast
  have "handleMessage m s =
          Normal (console_out (fst (switch_messageType ty)) (snd (switch_messageType ty)) s1)"
    using Inr s1(1) by (simp add: handleMessage_def then_do_def first_def)
  with s1(2) show ?thesis by (simp add: service_unchanged_def console_out_def)
qed

lemma onmessage_frame: "service_unchanged s (state_of (onmessage parsed s))"
proof (cases parsed)
  case (Inl e)
  then show ?thesis
    by (simp add: onmessage_def try_catch_def service_unchanged_def console_out_def)
next
  case (Inr m)
  let ?s0 = "console_out LLog ''WebSocket message received:'' s"
  have f: "service_unchanged ?s0 (state_of (handleMessage m ?s0))"
    by (rule handleMessage_frame)
  show ?thesis
  proof (cases "handleMessage m ?s0")
    case (Normal s1)
    with f Inr show ?thesis
      by (simp add: onmessage_def try_catch_def service_unchanged_def console_out_def)
  next
    case (Throw e s1)
    with f Inr show ?thesis
      by (simp add: onmessage_def try_catch_def service_unchanged_def console_out_def)
  qed
qed

lemma send_frame:
  "ws (state_of (send stringify m s)) = ws s \<and>
   reconnectAttempts (state_of (send stringify m s)) = reconnectAttempts s \<and>
   maxReconnectAttempts (state_of (send stringify m s)) = maxReconnectAttempts s \<and>
   isManuallyDisconnected (state_of (send stringify m s)) = isManuallyDisconnected s \<and>
   length (sockets (state_of (send stringify m s))) = length (sockets s) \<and>
   timers (state_of (send stringify m s)) = timers s"
  by (auto simp: send_def try_catch_def send_body_def console_out_def ws_send_def
      split: sum.splits option.splits)

lemma onclose_effect:
  "\<exists>s1. service_unchanged s s1 \<and>
     state_of (onclose code reason s) =
       (if \<not> isManuallyDisconnected s \<and> reconnectAttempts s < maxReconnectAttempts s
        then scheduleReconnect (s1\<lparr>isConnecting := False\<rparr>) else s1\<lparr>isConnecting := False\<rparr>)"
proof -
  let ?s0 = "(console_out LLog ''WebSocket connection closed:'' s)\<lparr>isConnecting := False\<rparr>"
  obtain s1 where s1: "notifyHandlers ''connection_status'' (close_status code reason) ?s0 = Normal s1"
    "service_unchanged ?s0 s1"
    using notifyHandlers_normal by blast
  have a: "service_unchanged s (s1\<lparr>isConnecting := isConnecting s\<rparr>)"
    using s1(2) by (simp add: service_unchanged_def console_out_def)
  have b: "s1\<lparr>isConnecting := isConnecting s\<rparr>\<lparr>isConnecting := False\<rparr> = s1"
    using s1(2) by (simp add: service_unchanged_def console_out_def)
  have "state_of (onclose code reason s) =
       (if \<not> isManuallyDisconnected s \<and> reconnectAttempts s < maxReconnectAttempts s
        then scheduleReconnect s1 else s1)"
    using s1 by (simp add: onclose_def then_do_def service_unchanged_def console_out_def)
  with a b show ?thesis by (metis (full_types))
qed

lemma step_quiet:
  assumes "\<not> is_Connect e" and "isManuallyDisconnected s"
  shows "isManuallyDisconnected (step stringify e s) \<and>
         length (sockets (step stringify e s)) = length (sockets s) \<and>
         length (timers (step stringify e s)) = length (timers s)"
proof (cases e)
  case (Connect c u i)
  with assms show ?thesis by simp
next
  case Disconnect
  with assms show ?thesis
    by (simp add: disconnect_def Let_def split: option.splits)
next
  case (Send m)
  with assms send_frame [of stringify m s] show ?thesis by simp
next
  case (SocketOpen i)
  with assms show ?thesis
    by (simp add: onopen_def set_readyState_def console_out_def)
next
  case (SocketMessage i parsed)
  with assms onmessage_frame [of s parsed] show ?thesis
    by (simp add: service_unchanged_def)
next
  case (SocketClose i code reason)
  let ?s0 = "set_readyState i CLOSED s"
  obtain s1 where s1: "service_unchanged ?s0 s1"
    "state_of (onclose code reason ?s0) =
       (if \<not> isManuallyDisconnected ?s0 \<and> reconnectAttempts ?s0 < maxReconnectAttempts ?s0
        then scheduleReconnect (s1\<lparr>isConnecting := False\<rparr>) else s1\<lparr>isConnecting := False\<rparr>)"
    using onclose_effect by blast
  with SocketClose assms show ?thesis
    by (simp add: service_unchanged_def set_readyState_def)
next
  case (SocketError i error)
  let ?s0 = "(console_out LError ''WebSocket error:'' s)\<lparr>isConnecting := False\<rparr>"
  obtain s1 where s1: "notifyHandlers ''connection_status'' (error_status error) ?s0 = Normal s1"
    "service_unchanged ?s0 s1"
    using notifyHandlers_normal by blast
  from s1(2) assms have "isManuallyDisconnected s1" "length (sockets s1) = length (sockets s)"
    "timers s1 = timers s"
    by (simp_all add: service_unchanged_def console_out_def)
  with SocketError s1(1) assms show ?thesis
    by (simp add: onerror_def)
next
  case (TimerFires i c)
  with assms show ?thesis
    by (simp add: reconnect_timer_def)
qed

lemma run_quiet:
  assumes "\<forall>e \<in> set es. \<not> is_Connect e" and "isManuallyDisconnected s"
  shows "isManuallyDisconnected (run stringify es s) \<and>
         length (sockets (run stringify es s)) = length (sockets s) \<and>
         length (timers (run stringify es s)) = length (timers s)"
  using assms
proof (induction es arbitrary: s)
  case Nil
  then show ?case by simp
next
  case (Cons e es)
  from Cons.prems have e: "\<not> is_Connect e" and es: "\<forall>e \<in> set es. \<not> is_Connect e" by simp_all
  note st = step_quiet [OF e Cons.prems(2), of stringify]
  from Cons.IH [OF es, of "step stringify e s"] st show ?case by simp
qed

lemma disconnect_effect:
  "isManuallyDisconnected (disconnect s) \<and>
   reconnectAttempts (disconnect s) = maxReconnectAttempts s \<and>
   length (sockets (disconnect s)) = length (sockets s) \<and>
   timers (disconnect s) = timers s"
  by (simp add: disconnect_def Let_def split: option.splits)

lemma onclose_schedules:
  "length (timers (state_of (onclose code reason s))) =
     (if \<not> isManuallyDisconnected s \<and> reconnectAttempts s < maxReconnectAttempts s
      then Suc (length (timers s)) else length (timers s))"
proof -
  obtain s1 where s1: "service_unchanged s s1"
    "state_of (onclose code reason s) =
       (if \<not> isManuallyDisconnected s \<and> reconnectAttempts s < maxReconnectAttempts s
        then scheduleReconnect (s1\<lparr>isConnecting := False\<rparr>) else s1\<lparr>isConnecting := False\<rparr>)"
    using onclose_effect by blast
  then show ?thesis
    by (simp add: service_unchanged_def scheduleReconnect_def Let_def console_out_def)
qed

lemma connect_max: "maxReconnectAttempts (snd (connect c u i s)) = maxReconnectAttempts s"
  by (simp add: connect_def console_out_def Let_def)

lemma step_max: "maxReconnectAttempts (step stringify e s) = maxReconnectAttempts s"
proof (cases e)
  case (Connect c u i)
  then show ?thesis by (simp add: connect_max)
next
  case Disconnect
  then show ?thesis by (simp add: disconnect_def Let_def split: option.splits)
next
  case (Send m)
  with send_frame [of stringify m s] show ?thesis by simp
next
  case (SocketOpen i)
  then show ?thesis by (simp add: onopen_def set_readyState_def console_out_def)
next
  case (SocketMessage i parsed)
  with onmessage_frame [of s parsed] show ?thesis by (simp add: service_unchanged_def)
next
  case (SocketClose i code reason)
  let ?s0 = "set_readyState i CLOSED s"
  obtain s1 where s1: "service_unchanged ?s0 s1"
    "state_of (onclose code reason ?s0) =
       (if \<not> isManuallyDisconnected ?s0 \<and> reconnectAttempts ?s0 < maxReconnectAttempts ?s0
        then scheduleReconnect (s1\<lparr>isConnecting := False\<rparr>) else s1\<lparr>isConnecting := False\<rparr>)"
    using onclose_effect by blast
  with SocketClose show ?thesis
    by (simp add: service_unchanged_def set_readyState_def scheduleReconnect_def Let_def
        console_out_def)
next
  case (SocketError i error)
  let ?s0 = "(console_out LError ''WebSocket error:'' s)\<lparr>isConnecting := False\<rparr>"
  obtain s1 where s1: "notifyHandlers ''connection_status'' (error_status error) ?s0 = Normal s1"
    "service_unchanged ?s0 s1"
    using notifyHandlers_normal by blast
  with SocketError show ?thesis
    by (simp add: onerror_def service_unchanged_def console_out_def)
next
  case (TimerFires i c)
  then show ?thesis
    by (simp add: reconnect_timer_def connect_max split: option.splits)
qed

lemma run_max: "maxReconnectAttempts (run stringify es s) = maxReconnectAttempts s"
  by (induction es arbitrary: s) (simp_all add: step_max)

lemma constructor_max: "maxReconnectAttempts (run stringify es (constructor fs a)) = 5"
  by (simp add: run_max constructor_def)

text \<open>
  C10. After \<^verbatim>\<open>disconnect\<close>, and for as long as the application does not call
  \<^verbatim>\<open>connect\<close> again, whatever the sockets and timers do (open, message, close and error
  events of any socket, pending timers firing, further sends and disconnects), the
  service constructs no WebSocket and sets no timer, and the flag stays set. The parts:
  \<^verbatim>\<open>disconnect\<close> sets the flag and puts \<open>reconnectAttempts\<close> at
  \<open>maxReconnectAttempts\<close>, which the constructor sets to 5 and nothing changes
  afterwards; the close handler sets a timer exactly when the flag is clear and the
  attempts are below the maximum; a timer that fires while the flag is set does nothing.
\<close>

theorem disconnect_stops_reconnection:
  assumes "\<forall>e \<in> set es. \<not> is_Connect e"
  shows "isManuallyDisconnected (disconnect s) \<and>
         reconnectAttempts (disconnect s) = maxReconnectAttempts s \<and>
         maxReconnectAttempts (run stringify history (constructor fs a)) = 5 \<and>
         isManuallyDisconnected (run stringify es (disconnect s)) \<and>
         length (sockets (run stringify es (disconnect s))) = length (sockets s) \<and>
         length (timers (run stringify es (disconnect s))) = length (timers s) \<and>
         length (timers (state_of (onclose code reason s))) =
           (if \<not> isManuallyDisconnected s \<and> reconnectAttempts s < maxReconnectAttempts s
            then Suc (length (timers s)) else length (timers s)) \<and>
         (isManuallyDisconnected s \<longrightarrow> reconnect_timer constructed s = s)"
  using run_quiet [OF assms, of "disconnect s" stringify] disconnect_effect [of s]
    onclose_schedules [of code reason s] constructor_max [of stringify history fs a]
  by (simp add: reconnect_timer_def)

lemma lost_connection_reconnects:
  "length (sockets lost_connection) = 0 \<and> length (timers lost_connection) = 1 \<and>
   length (sockets (run (\<lambda>v. Inr ''{}'') [TimerFires 0 True] lost_connection)) = 1"
  by (simp add: lost_connection_def constructor_def reconnect_timer_def truthy_field_def
      connect_def ws_open_def console_out_def Let_def)

lemma after_disconnect_no_connect: "\<forall>e \<in> set after_disconnect. \<not> is_Connect e"
  by (simp add: after_disconnect_def)

theorem disconnect_stops_reconnection_witness:
  "filter is_Connect after_disconnect = [] \<and>
   length (sockets lost_connection) = 0 \<and> length (timers lost_connection) = 1 \<and>
   length (sockets (run (\<lambda>v. Inr ''{}'') [TimerFires 0 True] lost_connection)) = 1 \<and>
   length (sockets (run (\<lambda>v. Inr ''{}'') after_disconnect (disconnect lost_connection))) = 0 \<and>
   length (timers (run (\<lambda>v. Inr ''{}'') after_disconnect (disconnect lost_connection))) = 1 \<and>
   isManuallyDisconnected (disconnect lost_connection) \<and>
   reconnect_timer True (disconnect lost_connection) = disconnect lost_connection \<and>
   length (timers (state_of (onclose (JNum 1006) (JStr []) lost_connection))) = 2 \<and>
   length (timers (state_of (onclose (JNum 1000) (JStr []) (disconnect lost_connection)))) = 1"
proof -
  note t = disconnect_stops_reconnection
      [OF after_disconnect_no_connect, where s = lost_connection and a = "()" and fs = "\<lambda>h. no_op"
         and stringify = "\<lambda>v. Inr ''{}''" and history = "[]" and code = "JNum 1006"
         and reason = "JStr []" and constructed = True]
  note u = disconnect_stops_reconnection
      [OF after_disconnect_no_connect, where s = "disconnect lost_connection" and a = "()" and fs = "\<lambda>h. no_op"
         and stringify = "\<lambda>v. Inr ''{}''" and history = "[]" and code = "JNum 1000"
         and reason = "JStr []" and constructed = True]
  have g: "\<not> isManuallyDisconnected lost_connection \<and>
           reconnectAttempts lost_connection < maxReconnectAttempts lost_connection"
    by (simp add: lost_connection_def constructor_def)
  from t have a: "length (sockets (run (\<lambda>v. Inr ''{}'') after_disconnect (disconnect lost_connection))) =
          length (sockets lost_connection) \<and>
        length (timers (run (\<lambda>v. Inr ''{}'') after_disconnect (disconnect lost_connection))) =
          length (timers lost_connection) \<and>
        isManuallyDisconnected (disconnect lost_connection)"
    by blast
  from t g have b: "length (timers (state_of (onclose (JNum 1006) (JStr []) lost_connection))) =
                      Suc (length (timers lost_connection))"
    by presburger
  from a u have c: "reconnect_timer True (disconnect lost_connection) = disconnect lost_connection"
    by blast
  from a u have d: "length (timers (state_of (onclose (JNum 1000) (JStr []) (disconnect lost_connection)))) =
                      length (timers (disconnect lost_connection))"
    by presburger
  have e: "length (timers (disconnect lost_connection)) = 1"
    by (simp add: disconnect_def lost_connection_def constructor_def Let_def)
  have f: "filter is_Connect after_disconnect = []"
    by (simp add: after_disconnect_def)
  from a b c d e f lost_connection_reconnects show ?thesis
    by (simp del: run.simps step.simps)
qed


subsection \<open>The buffers of readings and alerts\<close>

lemma take_unshift_first: "0 < n \<Longrightarrow> take n (x # xs) ! 0 = x"
  by (cases n) simp_all

lemma addSensorReading_buffer:
  "addSensorReading literal now rnd isoNow reading st =
     (if nullish reading then Throw TypeError st
      else Normal (st\<lparr>store_latestSensorData :=
             take 50 (store_reading_entry literal now rnd isoNow reading # store_latestSensorData st)\<rparr>))"
  by (simp add: addSensorReading_def Let_def)

lemma addSystemAlert_buffer:
  "addSystemAlert literal now rnd isoNow a st =
     Normal (st\<lparr>store_systemAlerts :=
       take 20 (store_alert_entry literal now rnd isoNow a # store_systemAlerts st)\<rparr>)"
  by (simp add: addSystemAlert_def Let_def)

lemma handleSensorData_rejects:
  "nullish data \<or> nullish (field ''data'' data) \<Longrightarrow>
     handleSensorData now rnd isoNow data d = Throw TypeError d"
  by (simp add: handleSensorData_def)

lemma handleSensorData_buffer:
  assumes "\<not> nullish data" and "\<not> nullish (field ''data'' data)"
  shows "latestSensorData (state_of (handleSensorData now rnd isoNow data d)) =
           take 50 (sensorReading now rnd isoNow data # latestSensorData d)"
    and "threw (handleSensorData now rnd isoNow data d) =
           (field ''device_id'' (sensorReading now rnd isoNow data) \<noteq> JStr ''unknown'' \<and>
            \<not> js_includes (devices d) (field ''device_id'' (sensorReading now rnd isoNow data)) \<and>
            template_throws (field ''device_id'' (sensorReading now rnd isoNow data)))"
  using assms by (simp_all add: handleSensorData_def Let_def)

lemma handleSystemAlert_rejects:
  "nullish data \<Longrightarrow> handleSystemAlert now rnd isoNow data d = Throw TypeError d"
  by (simp add: handleSystemAlert_def)

lemma handleSystemAlert_buffer:
  assumes "\<not> nullish data"
  shows "systemAlerts (state_of (handleSystemAlert now rnd isoNow data d)) =
           take 20 (system_alert_entry now rnd isoNow data # systemAlerts d)"
    and "threw (handleSystemAlert now rnd isoNow data d) =
           ((field ''level'' data = JStr ''error'' \<or> field ''level'' data = JStr ''critical'') \<and>
            template_throws (field ''message'' data))"
  using assms by (simp_all add: handleSystemAlert_def Let_def showToast_def)

text \<open>
  C9. Each of the four insertion operations (\<^verbatim>\<open>addSensorReading\<close> and
  \<^verbatim>\<open>addSystemAlert\<close> of the store, \<^verbatim>\<open>handleSensorData\<close> and \<^verbatim>\<open>handleSystemAlert\<close> of
  the dashboard), given a reading or alert to insert, leaves its buffer equal to the new
  entry followed by the previous entries in their order, cut to the first 50 readings
  or 20 alerts; so the buffer holds at most 50 or 20 entries, the new entry is at index
  0, and what is dropped is dropped from the tail. For the two handlers this holds
  whether they return or throw afterwards: they throw after the insertion exactly when
  the text of the line about a new device, or of the toast of an error or critical
  alert, cannot be built. When there is nothing to insert (a reading or message that is
  \<^verbatim>\<open>undefined\<close> or \<^verbatim>\<open>null\<close>, a sensor message without \<^verbatim>\<open>data\<close>) the operation throws a
  TypeError and leaves the state as it was; \<^verbatim>\<open>addSystemAlert\<close> never throws.
\<close>

theorem buffers_bounded_newest_first:
  "(nullish reading \<longrightarrow>
      addSensorReading literal now rnd isoNow reading st = Throw TypeError st) \<and>
   (\<not> nullish reading \<longrightarrow>
      \<not> threw (addSensorReading literal now rnd isoNow reading st) \<and>
      store_latestSensorData (state_of (addSensorReading literal now rnd isoNow reading st)) =
        take 50 (store_reading_entry literal now rnd isoNow reading # store_latestSensorData st) \<and>
      length (store_latestSensorData (state_of (addSensorReading literal now rnd isoNow reading st))) \<le> 50 \<and>
      store_latestSensorData (state_of (addSensorReading literal now rnd isoNow reading st)) ! 0 =
        store_reading_entry literal now rnd isoNow reading) \<and>
   \<not> threw (addSystemAlert literal now rnd isoNow a st) \<and>
   store_systemAlerts (state_of (addSystemAlert literal now rnd isoNow a st)) =
     take 20 (store_alert_entry literal now rnd isoNow a # store_systemAlerts st) \<and>
   length (store_systemAlerts (state_of (addSystemAlert literal now rnd isoNow a st))) \<le> 20 \<and>
   store_systemAlerts (state_of (addSystemAlert literal now rnd isoNow a st)) ! 0 =
     store_alert_entry literal now rnd isoNow a \<and>
   (nullish data \<or> nullish (field ''data'' data) \<longrightarrow>
      handleSensorData now rnd isoNow data d = Throw TypeError d) \<and>
   (\<not> nullish data \<and> \<not> nullish (field ''data'' data) \<longrightarrow>
      latestSensorData (state_of (handleSensorData now rnd isoNow data d)) =
        take 50 (sensorReading now rnd isoNow data # latestSensorData d) \<and>
      length (latestSensorData (state_of (handleSensorData now rnd isoNow data d))) \<le> 50 \<and>
      latestSensorData (state_of (handleSensorData now rnd isoNow data d)) ! 0 =
        sensorReading now rnd isoNow data \<and>
      threw (handleSensorData now rnd isoNow data d) =
        (field ''device_id'' (sensorReading now rnd isoNow data) \<noteq> JStr ''unknown'' \<and>
         \<not> js_includes (devices d) (field ''device_id'' (sensorReading now rnd isoNow data)) \<and>
         template_throws (field ''device_id'' (sensorReading now rnd isoNow data)))) \<and>
   (nullish data \<longrightarrow> handleSystemAlert now rnd isoNow data d = Throw TypeError d) \<and>
   (\<not> nullish data \<longrightarrow>
      systemAlerts (state_of (handleSystemAlert now rnd isoNow data d)) =
        take 20 (system_alert_entry now rnd isoNow data # systemAlerts d) \<and>
      length (systemAlerts (state_of (handleSystemAlert now rnd isoNow data d))) \<le> 20 \<and>
      systemAlerts (state_of (handleSystemAlert now rnd isoNow data d)) ! 0 =
        system_alert_entry now rnd isoNow data \<and>
      threw (handleSystemAlert now rnd isoNow data d) =
        ((field ''level'' data = JStr ''error'' \<or> field ''level'' data = JStr ''critical'') \<and>
         template_throws (field ''message'' data)))"
proof -
  have 1: "nullish reading \<longrightarrow>
      addSensorReading literal now rnd isoNow reading st = Throw TypeError st"
    by (simp add: addSensorReading_buffer)
  have 2: "\<not> nullish reading \<longrightarrow>
      \<not> threw (addSensorReading literal now rnd isoNow reading st) \<and>
      store_latestSensorData (state_of (addSensorReading literal now rnd isoNow reading st)) =
        take 50 (store_reading_entry literal now rnd isoNow reading # store_latestSensorData st) \<and>
      length (store_latestSensorData (state_of (addSensorReading literal now rnd isoNow reading st))) \<le> 50 \<and>
      store_latestSensorData (state_of (addSensorReading literal now rnd isoNow reading st)) ! 0 =
        store_reading_entry literal now rnd isoNow reading"
    by (simp add: addSensorReading_buffer take_unshift_first)
  have 3: "\<not> threw (addSystemAlert literal now rnd isoNow a st) \<and>
   store_systemAlerts (state_of (addSystemAlert literal now rnd isoNow a st)) =
     take 20 (store_alert_entry literal now rnd isoNow a # store_systemAlerts st) \<and>
   length (store_systemAlerts (state_of (addSystemAlert literal now rnd isoNow a st))) \<le> 20 \<and>
   store_systemAlerts (state_of (addSystemAlert literal now rnd isoNow a st)) ! 0 =
     store_alert_entry literal now rnd isoNow a"
    by (simp add: addSystemAlert_buffer take_unshift_first)
  have 4: "nullish data \<or> nullish (field ''data'' data) \<longrightarrow>
      handleSensorData now rnd isoNow data d = Throw TypeError d"
    using handleSensorData_rejects by blast
  have 5: "\<not> nullish data \<and> \<not> nullish (field ''data'' data) \<longrightarrow>
      latestSensorData (state_of (handleSensorData now rnd isoNow data d)) =
        take 50 (sensorReading now rnd isoNow data # latestSensorData d) \<and>
      length (latestSensorData (state_of (handleSensorData now rnd isoNow data d))) \<le> 50 \<and>
      latestSensorData (state_of (handleSensorData now rnd isoNow data d)) ! 0 =
        sensorReading now rnd isoNow data \<and>
      threw (handleSensorData now rnd isoNow data d) =
        (field ''device_id'' (sensorReading now rnd isoNow data) \<noteq> JStr ''unknown'' \<and>
         \<not> js_includes (devices d) (field ''device_id'' (sensorReading now rnd isoNow data)) \<and>
         template_throws (field ''device_id'' (sensorReading now rnd isoNow data)))"
    using handleSensorData_buffer [of data now rnd isoNow d]
    by (simp add: take_unshift_first)
  have 6: "nullish data \<longrightarrow> handleSystemAlert now rnd isoNow data d = Throw TypeError d"
    using handleSystemAlert_rejects by blast
  have 7: "\<not> nullish data \<longrightarrow>
      systemAlerts (state_of (handleSystemAlert now rnd isoNow data d)) =
        take 20 (system_alert_entry now rnd isoNow data # systemAlerts d) \<and>
      length (systemAlerts (state_of (handleSystemAlert now rnd isoNow data d))) \<le> 20 \<and>
      systemAlerts (state_of (handleSystemAlert now rnd isoNow data d)) ! 0 =
        system_alert_entry now rnd isoNow data \<and>
      threw (handleSystemAlert now rnd isoNow data d) =
        ((field ''level'' data = JStr ''error'' \<or> field ''level'' data = JStr ''critical'') \<and>
         template_throws (field ''message'' data))"
    using handleSystemAlert_buffer [of data now rnd isoNow d]
    by (simp add: take_unshift_first)
  from 1 2 3 4 5 6 7 show ?thesis by blast
qed


lemma odd_device_reading:
  "\<not> nullish odd_device_message \<and> \<not> nullish (field ''data'' odd_device_message) \<and>
   field ''device_id'' (sensorReading 1000 (1 / 2) ''2025-01-01T00:00:00.000Z'' odd_device_message) =
     JObj [(''toString'', JNum 1)]"
  by (simp add: odd_device_message_def nullish_def field_def sensorReading_def js_or_def
      Let_def)

lemma temperature_reading:
  "\<not> nullish temperature_message \<and> \<not> nullish (field ''data'' temperature_message) \<and>
   field ''device_id'' (sensorReading 1000 (1 / 2) ''2025-01-01T00:00:00.000Z'' temperature_message) =
     JStr ''device1''"
  by (simp add: temperature_message_def nullish_def field_def sensorReading_def js_or_def
      Let_def)

lemma odd_alert_fields:
  "\<not> nullish odd_alert_message \<and> field ''level'' odd_alert_message = JStr ''critical'' \<and>
   field ''message'' odd_alert_message = JObj [(''toString'', JNum 1)]"
  by (simp add: odd_alert_message_def nullish_def field_def)

theorem buffers_bounded_newest_first_witness:
  "\<not> threw (handleSensorData 1000 (1 / 2) ''2025-01-01T00:00:00.000Z'' temperature_message empty_dashboard) \<and>
   latestSensorData (state_of (handleSensorData 1000 (1 / 2) ''2025-01-01T00:00:00.000Z''
       temperature_message empty_dashboard)) =
     [sensorReading 1000 (1 / 2) ''2025-01-01T00:00:00.000Z'' temperature_message] \<and>
   threw (handleSensorData 1000 (1 / 2) ''2025-01-01T00:00:00.000Z'' odd_device_message empty_dashboard) \<and>
   latestSensorData (state_of (handleSensorData 1000 (1 / 2) ''2025-01-01T00:00:00.000Z''
       odd_device_message empty_dashboard)) =
     [sensorReading 1000 (1 / 2) ''2025-01-01T00:00:00.000Z'' odd_device_message] \<and>
   threw (handleSystemAlert 1000 (1 / 2) ''2025-01-01T00:00:00.000Z'' odd_alert_message empty_dashboard) \<and>
   systemAlerts (state_of (handleSystemAlert 1000 (1 / 2) ''2025-01-01T00:00:00.000Z''
       odd_alert_message empty_dashboard)) =
     [system_alert_entry 1000 (1 / 2) ''2025-01-01T00:00:00.000Z'' odd_alert_message] \<and>
   handleSensorData 1000 (1 / 2) ''2025-01-01T00:00:00.000Z'' JNull empty_dashboard =
     Throw TypeError empty_dashboard \<and>
   handleSystemAlert 1000 (1 / 2) ''2025-01-01T00:00:00.000Z'' JNull empty_dashboard =
     Throw TypeError empty_dashboard \<and>
   addSensorReading properties_only 1000 (1 / 2) ''2025-01-01T00:00:00.000Z'' JUndefined full_store =
     Throw TypeError full_store \<and>
   \<not> threw (addSensorReading properties_only 1000 (1 / 2) ''2025-01-01T00:00:00.000Z''
       (JObj []) full_store) \<and>
   store_latestSensorData (state_of (addSensorReading properties_only 1000 (1 / 2)
       ''2025-01-01T00:00:00.000Z'' (JObj []) full_store)) =
     [JObj [(''id'', JNum (2001 / 2)), (''timestamp'', JStr ''2025-01-01T00:00:00.000Z'')]] \<and>
   store_systemAlerts (state_of (addSystemAlert properties_only 1000 (1 / 2)
       ''2025-01-01T00:00:00.000Z'' JUndefined full_store)) =
     JObj [(''id'', JNum (2001 / 2)), (''timestamp'', JStr ''2025-01-01T00:00:00.000Z'')] #
       replicate 19 JNull"
proof -
  note a = buffers_bounded_newest_first [of "JObj []" properties_only 1000 "1 / 2"
      "''2025-01-01T00:00:00.000Z''" full_store JUndefined temperature_message empty_dashboard]
  note b = buffers_bounded_newest_first [of JUndefined properties_only 1000 "1 / 2"
      "''2025-01-01T00:00:00.000Z''" full_store JUndefined odd_device_message empty_dashboard]
  note c = buffers_bounded_newest_first [of JUndefined properties_only 1000 "1 / 2"
      "''2025-01-01T00:00:00.000Z''" full_store JUndefined odd_alert_message empty_dashboard]
  note d = buffers_bounded_newest_first [of JUndefined properties_only 1000 "1 / 2"
      "''2025-01-01T00:00:00.000Z''" full_store JUndefined JNull empty_dashboard]
  have e: "devices empty_dashboard = [] \<and> latestSensorData empty_dashboard = [] \<and>
           systemAlerts empty_dashboard = []"
    by (simp add: empty_dashboard_def)
  have f: "store_latestSensorData full_store = [] \<and>
           store_systemAlerts full_store = replicate 20 JNull"
    by (simp add: full_store_def)
  have g: "store_reading_entry properties_only 1000 (1 / 2) ''2025-01-01T00:00:00.000Z'' (JObj []) =
             JObj [(''id'', JNum (2001 / 2)), (''timestamp'', JStr ''2025-01-01T00:00:00.000Z'')] \<and>
           store_alert_entry properties_only 1000 (1 / 2) ''2025-01-01T00:00:00.000Z'' JUndefined =
             JObj [(''id'', JNum (2001 / 2)), (''timestamp'', JStr ''2025-01-01T00:00:00.000Z'')]"
    by (simp add: store_reading_entry_def store_alert_entry_def properties_only_def field_def
        js_or_def)
  have h: "nullish JNull \<and> nullish JUndefined \<and> \<not> nullish (JObj [])"
    by (simp add: nullish_def)
  have 1: "\<not> threw (handleSensorData 1000 (1 / 2) ''2025-01-01T00:00:00.000Z'' temperature_message empty_dashboard) \<and>
     latestSensorData (state_of (handleSensorData 1000 (1 / 2) ''2025-01-01T00:00:00.000Z''
       temperature_message empty_dashboard)) =
     [sensorReading 1000 (1 / 2) ''2025-01-01T00:00:00.000Z'' temperature_message]"
    using a temperature_reading e by (simp add: js_includes_def)
  have 2: "threw (handleSensorData 1000 (1 / 2) ''2025-01-01T00:00:00.000Z'' odd_device_message empty_dashboard) \<and>
     latestSensorData (state_of (handleSensorData 1000 (1 / 2) ''2025-01-01T00:00:00.000Z''
       odd_device_message empty_dashboard)) =
     [sensorReading 1000 (1 / 2) ''2025-01-01T00:00:00.000Z'' odd_device_message]"
    using b odd_device_reading e by (simp add: js_includes_def)
  have 3: "threw (handleSystemAlert 1000 (1 / 2) ''2025-01-01T00:00:00.000Z'' odd_alert_message empty_dashboard) \<and>
     systemAlerts (state_of (handleSystemAlert 1000 (1 / 2) ''2025-01-01T00:00:00.000Z''
       odd_alert_message empty_dashboard)) =
     [system_alert_entry 1000 (1 / 2) ''2025-01-01T00:00:00.000Z'' odd_alert_message]"
    using c odd_alert_fields e by simp
  have 4: "handleSensorData 1000 (1 / 2) ''2025-01-01T00:00:00.000Z'' JNull empty_dashboard =
       Throw TypeError empty_dashboard \<and>
     handleSystemAlert 1000 (1 / 2) ''2025-01-01T00:00:00.000Z'' JNull empty_dashboard =
       Throw TypeError empty_dashboard \<and>
     addSensorReading properties_only 1000 (1 / 2) ''2025-01-01T00:00:00.000Z'' JUndefined full_store =
       Throw TypeError full_store"
    using d h by blast
  have 5: "\<not> threw (addSensorReading properties_only 1000 (1 / 2) ''2025-01-01T00:00:00.000Z''
       (JObj []) full_store) \<and>
     store_latestSensorData (state_of (addSensorReading properties_only 1000 (1 / 2)
       ''2025-01-01T00:00:00.000Z'' (JObj []) full_store)) =
     [JObj [(''id'', JNum (2001 / 2)), (''timestamp'', JStr ''2025-01-01T00:00:00.000Z'')]] \<and>
     store_systemAlerts (state_of (addSystemAlert properties_only 1000 (1 / 2)
       ''2025-01-01T00:00:00.000Z'' JUndefined full_store)) =
     JObj [(''id'', JNum (2001 / 2)), (''timestamp'', JStr ''2025-01-01T00:00:00.000Z'')] #
       replicate 19 JNull"
    using a f g h by (simp add: numeral_eq_Suc)
  from 1 2 3 4 5 show ?thesis by blast
qed


subsection \<open>The message types of the client\<close>


lemma frames_console_out [simp]: "frames (console_out l txt s) = frames s"
  by (simp add: frames_def console_out_def)



















subsection \<open>The write-time check on selected Limit Configs\<close>

lemma createSensor_rejects:
  "addSelectedLimitsCount v > 1 \<Longrightarrow>
     createSensor Number api (v, srv) = (v\<lparr>addError := ''You cannot select more than 1 limit.''\<rparr>, srv)"
  by (simp add: createSensor_def)

lemma updateSensor_rejects:
  "editSelectedLimitsCount v > 1 \<Longrightarrow>
     updateSensor api (v, srv) = (v\<lparr>updateError := ''You cannot select more than 1 limit.''\<rparr>, srv)"
  by (simp add: updateSensor_def)

lemma createSensor_recorded:
  "snd (createSensor Number recording_api (v, reqs)) =
     (if addSelectedLimitsCount v > 1 then reqs
      else reqs @ [AddSensor (createSensor_payload Number (newSensor v))])"
  by (simp add: createSensor_def recording_api_def loadSensors_def loadSSInfo_def)

lemma updateSensor_recorded:
  "snd (updateSensor recording_api (v, reqs)) =
     (case editingSensor v of
        None \<Rightarrow> reqs
      | Some e \<Rightarrow> if editSelectedLimitsCount v > 1 then reqs
                  else reqs @ [UpdateSensor (sensor_id e) (cleanPayload e)])"
  by (simp add: updateSensor_def recording_api_def loadSensors_def editSelectedLimitsCount_def
      split: option.splits)

lemma payload_selected:
  "selected_in (AddSensor (createSensor_payload Number (newSensor v))) = addSelectedLimitsCount v"
  by (simp add: createSensor_payload_def addSelectedLimitsCount_def filter_map comp_def)

lemma cleanPayload_selected:
  "editingSensor v = Some e \<Longrightarrow>
     selected_in (UpdateSensor (sensor_id e) (cleanPayload e)) = editSelectedLimitsCount v"
  by (simp add: cleanPayload_def editSelectedLimitsCount_def split: option.splits)

text \<open>
  C1 (amended). A sensor create or update whose limits list selects more than one Limit
  Config is rejected by the view: the error message is set, no request is made and the
  server's state is unchanged, whatever the server is. Every create or update request
  that the view does send carries at most one selected Limit Config. A create whose
  limits select none or one is sent with the limits of the form, and so is an update of
  the sensor being edited: a sensor may be written with no selected Limit Config.
\<close>

theorem limit_selection_write_check:
  "(addSelectedLimitsCount v > 1 \<longrightarrow>
      createSensor Number api (v, srv) =
        (v\<lparr>addError := ''You cannot select more than 1 limit.''\<rparr>, srv)) \<and>
   (editSelectedLimitsCount v > 1 \<longrightarrow>
      updateSensor api (v, srv) =
        (v\<lparr>updateError := ''You cannot select more than 1 limit.''\<rparr>, srv)) \<and>
   (\<forall>r \<in> set (snd (createSensor Number recording_api (v, reqs))) - set reqs. selected_in r \<le> 1) \<and>
   (\<forall>r \<in> set (snd (updateSensor recording_api (v, reqs))) - set reqs. selected_in r \<le> 1) \<and>
   (addSelectedLimitsCount v \<le> 1 \<longrightarrow>
      snd (createSensor Number recording_api (v, reqs)) =
        reqs @ [AddSensor (createSensor_payload Number (newSensor v))] \<and>
      selected_in (AddSensor (createSensor_payload Number (newSensor v))) = addSelectedLimitsCount v) \<and>
   (editingSensor v = Some e \<and> editSelectedLimitsCount v \<le> 1 \<longrightarrow>
      snd (updateSensor recording_api (v, reqs)) =
        reqs @ [UpdateSensor (sensor_id e) (cleanPayload e)] \<and>
      selected_in (UpdateSensor (sensor_id e) (cleanPayload e)) = editSelectedLimitsCount v)"
proof -
  have a: "\<forall>r \<in> set (snd (createSensor Number recording_api (v, reqs))) - set reqs. selected_in r \<le> 1"
    using payload_selected [of Number v] by (auto simp: createSensor_recorded)
  have b: "\<forall>r \<in> set (snd (updateSensor recording_api (v, reqs))) - set reqs. selected_in r \<le> 1"
    using cleanPayload_selected [of v]
    by (auto simp: updateSensor_recorded split: option.splits if_splits)
  have c: "editingSensor v = Some e \<and> editSelectedLimitsCount v \<le> 1 \<longrightarrow>
      snd (updateSensor recording_api (v, reqs)) =
        reqs @ [UpdateSensor (sensor_id e) (cleanPayload e)] \<and>
      selected_in (UpdateSensor (sensor_id e) (cleanPayload e)) = editSelectedLimitsCount v"
    using cleanPayload_selected [of v e]
    by (simp add: updateSensor_recorded del: selected_in.simps)
  have d: "(addSelectedLimitsCount v > 1 \<longrightarrow>
      createSensor Number api (v, srv) =
        (v\<lparr>addError := ''You cannot select more than 1 limit.''\<rparr>, srv)) \<and>
   (editSelectedLimitsCount v > 1 \<longrightarrow>
      updateSensor api (v, srv) =
        (v\<lparr>updateError := ''You cannot select more than 1 limit.''\<rparr>, srv)) \<and>
   (addSelectedLimitsCount v \<le> 1 \<longrightarrow>
      snd (createSensor Number recording_api (v, reqs)) =
        reqs @ [AddSensor (createSensor_payload Number (newSensor v))] \<and>
      selected_in (AddSensor (createSensor_payload Number (newSensor v))) = addSelectedLimitsCount v)"
    using createSensor_rejects [of v Number api srv] updateSensor_rejects [of v api srv]
      createSensor_recorded [of Number v reqs] payload_selected [of Number v]
    by simp
  from a b c d show ?thesis by blast
qed

lemma filled_none_selected_count:
  "addSelectedLimitsCount filled_none_selected = 0 \<and> isValidNewSensor filled_none_selected"
  by (simp add: filled_none_selected_def toggle_selected_def initial_view_def
      addSelectedLimitsCount_def isValidNewSensor_def trim_def is_space_def Let_def)

lemma two_selected_count: "addSelectedLimitsCount two_selected = 2"
  by (simp add: two_selected_def toggle_selected_def addLimitConfig_def initial_view_def
      blank_sensor_def blank_limit_def addSelectedLimitsCount_def Let_def)

lemma editing_none_selected_count:
  "editSelectedLimitsCount editing_none_selected = 0 \<and>
   (\<exists>e. editingSensor editing_none_selected = Some e \<and> sensor_id e = ''temp02'')"
  by (simp add: editing_none_selected_def editSensor_def editSelectedLimitsCount_def)

theorem limit_selection_write_check_witness:
  "isValidNewSensor filled_none_selected \<and>
   addSelectedLimitsCount filled_none_selected \<le> 1 \<and>
   snd (createSensor id recording_api (filled_none_selected, [])) =
     [AddSensor (createSensor_payload id (newSensor filled_none_selected))] \<and>
   selected_in (AddSensor (createSensor_payload id (newSensor filled_none_selected))) = 0 \<and>
   editSelectedLimitsCount editing_none_selected \<le> 1 \<and>
   map selected_in (snd (updateSensor recording_api (editing_none_selected, []))) = [0] \<and>
   addSelectedLimitsCount two_selected > 1 \<and>
   createSensor id recording_api (two_selected, []) =
     (two_selected\<lparr>addError := ''You cannot select more than 1 limit.''\<rparr>, []) \<and>
   editSelectedLimitsCount (editSensor (createSensor_payload id (newSensor two_selected)) initial_view) > 1 \<and>
   updateSensor recording_api
       (editSensor (createSensor_payload id (newSensor two_selected)) initial_view, []) =
     ((editSensor (createSensor_payload id (newSensor two_selected)) initial_view)
        \<lparr>updateError := ''You cannot select more than 1 limit.''\<rparr>, [])"
proof -
  have e: "editSelectedLimitsCount
             (editSensor (createSensor_payload id (newSensor two_selected)) initial_view) = 2"
    using two_selected_count
    by (simp add: editSelectedLimitsCount_def editSensor_def createSensor_payload_def
        addSelectedLimitsCount_def filter_map comp_def)
  obtain e0 where e0: "editingSensor editing_none_selected = Some e0"
    using editing_none_selected_count by blast
  from limit_selection_write_check [of editing_none_selected id recording_api "[]" "[]" e0] e0
    editing_none_selected_count
  have u: "editSelectedLimitsCount editing_none_selected \<le> 1 \<and>
     map selected_in (snd (updateSensor recording_api (editing_none_selected, []))) = [0]"
    by (simp del: selected_in.simps)
  from limit_selection_write_check [of filled_none_selected id recording_api "[]" "[]"]
    limit_selection_write_check [of two_selected id recording_api "[]" "[]"]
    limit_selection_write_check
      [of "editSensor (createSensor_payload id (newSensor two_selected)) initial_view" id
          recording_api "[]" "[]"]
    filled_none_selected_count two_selected_count e u
  show ?thesis by (simp del: selected_in.simps)
qed

text \<open>
  The create form is filled in, so that its button is enabled, and its only Limit Config
  is switched off: \<^verbatim>\<open>createSensor\<close> sends the sensor, and the request carries no
  selected Limit Config. The update of a sensor whose only Limit Config is not selected
  is sent as well.
\<close>

theorem limit_selection_write_check_counterexample:
  "isValidNewSensor filled_none_selected \<and>
   map selected_in (snd (createSensor id recording_api (filled_none_selected, []))) = [0] \<and>
   map selected_in (snd (updateSensor recording_api (editing_none_selected, []))) = [0]"
proof -
  obtain e0 where e0: "editingSensor editing_none_selected = Some e0"
    using editing_none_selected_count by blast
  with cleanPayload_selected [of editing_none_selected e0] editing_none_selected_count
  have "map selected_in (snd (updateSensor recording_api (editing_none_selected, []))) = [0]"
    by (simp add: updateSensor_recorded del: selected_in.simps)
  with filled_none_selected_count show ?thesis
    by (simp add: createSensor_recorded payload_selected del: selected_in.simps)
qed


subsection \<open>Resolving and reverting alerts\<close>

lemma resolve_rejected:
  "alert_with i store = Some b \<Longrightarrow> is_resolved b \<Longrightarrow> resolve now i store = (store, Rejected b)"
  by (induction store) (auto simp: alert_with_def)

lemma revert_rejected:
  "alert_with i store = Some b \<Longrightarrow> \<not> is_resolved b \<Longrightarrow> revert i store = (store, Rejected b)"
  by (induction store) (auto simp: alert_with_def)

lemma resolve_accepted:
  "alert_with i store = Some b \<Longrightarrow> \<not> is_resolved b \<Longrightarrow>
     snd (resolve now i store) = Accepted (b\<lparr>is_resolved := True, resolved_at := Some now\<rparr>) \<and>
     alert_with i (fst (resolve now i store)) = Some (b\<lparr>is_resolved := True, resolved_at := Some now\<rparr>)"
  by (induction store) (auto simp: alert_with_def split: prod.splits)

lemma revert_accepted:
  "alert_with i store = Some b \<Longrightarrow> is_resolved b \<Longrightarrow>
     snd (revert i store) = Accepted (b\<lparr>is_resolved := False, resolved_at := None\<rparr>) \<and>
     alert_with i (fst (revert i store)) = Some (b\<lparr>is_resolved := False, resolved_at := None\<rparr>)"
  by (induction store) (auto simp: alert_with_def split: prod.splits)

text \<open>
  C2. In the view, \<^verbatim>\<open>resolveAlert\<close> on an alert that is resolved and \<^verbatim>\<open>revertAlert\<close> on
  an alert that is unresolved return at once: no request is made and neither the view
  nor the server changes, whatever the server is. In the backend contract, \<^verbatim>\<open>resolve\<close>
  of a stored alert that is already resolved, and \<^verbatim>\<open>revert\<close> of one that is unresolved,
  are rejected with the alert's current state and leave the store as it is; on the
  valid transitions \<^verbatim>\<open>resolve\<close> sets \<open>resolved_at\<close> to the time of the call and
  \<^verbatim>\<open>revert\<close> clears it.
\<close>

theorem resolve_revert_transitions:
  "(is_resolved a \<longrightarrow> resolveAlert api a (v, srv) = (v, srv)) \<and>
   (\<not> is_resolved a \<longrightarrow> revertAlert api a (v, srv) = (v, srv)) \<and>
   (alert_with i store = Some b \<and> is_resolved b \<longrightarrow>
      resolve now i store = (store, Rejected b) \<and>
      snd (revert i store) = Accepted (b\<lparr>is_resolved := False, resolved_at := None\<rparr>) \<and>
      alert_with i (fst (revert i store)) = Some (b\<lparr>is_resolved := False, resolved_at := None\<rparr>)) \<and>
   (alert_with i store = Some b \<and> \<not> is_resolved b \<longrightarrow>
      revert i store = (store, Rejected b) \<and>
      snd (resolve now i store) = Accepted (b\<lparr>is_resolved := True, resolved_at := Some now\<rparr>) \<and>
      alert_with i (fst (resolve now i store)) =
        Some (b\<lparr>is_resolved := True, resolved_at := Some now\<rparr>))"
  using resolve_rejected [of i store b now] revert_rejected [of i store b]
    resolve_accepted [of i store b now] revert_accepted [of i store b]
  by (simp add: resolveAlert_def revertAlert_def)

theorem resolve_revert_transitions_witness:
  "is_resolved resolved_alert \<and> \<not> is_resolved triggered_alert \<and>
   snd (resolveAlert recording_api resolved_alert (initial_view, [])) = [] \<and>
   snd (revertAlert recording_api triggered_alert (initial_view, [])) = [] \<and>
   alert_with 7 [triggered_alert] = Some triggered_alert \<and>
   alert_with 7 [resolved_alert] = Some resolved_alert \<and>
   resolve 3000 7 [resolved_alert] = ([resolved_alert], Rejected resolved_alert) \<and>
   revert 7 [triggered_alert] = ([triggered_alert], Rejected triggered_alert) \<and>
   resolved_at (the (alert_with 7 (fst (resolve 3000 7 [triggered_alert])))) = Some 3000 \<and>
   resolved_at (the (alert_with 7 (fst (revert 7 [resolved_alert])))) = None"
  using resolve_revert_transitions [of resolved_alert recording_api initial_view "[]" 7
      "[resolved_alert]" resolved_alert 3000]
    resolve_revert_transitions [of triggered_alert recording_api initial_view "[]" 7
      "[triggered_alert]" triggered_alert 3000]
  by (simp add: alert_with_def resolved_alert_def triggered_alert_def)

subsection \<open>Evaluating a reading against the selected limits\<close>

lemma evaluate_selected:
  assumes "find (\<lambda>s. sensor_id s = sid) ss = Some s"
    and "filter is_selected (case limits s of None \<Rightarrow> [] | Some ls \<Rightarrow> ls) = [lc]"
  shows "evaluate ss sid v u = evaluate_limit lc v u"
  using assms by (simp add: evaluate_def)

text \<open>
  C3. For a sensor with a single selected Limit Config, \<^verbatim>\<open>evaluate\<close> rejects a reading
  whose unit differs from the config's with a validation error, whatever the value;
  with the config's unit, a value above the upper limit gives a breach of type
  \<^verbatim>\<open>upper_breach\<close> with the upper limit as limit value, a value below the lower limit
  (and not above the upper one, which is so whenever the limits are in order) gives a
  breach of type \<^verbatim>\<open>lower_breach\<close> with the lower limit as limit value, and a value
  from the lower to the upper limit gives no breach.
\<close>

theorem evaluate_breach_conditions:
  assumes "find (\<lambda>s. sensor_id s = sid) ss = Some s"
    and "filter is_selected (case limits s of None \<Rightarrow> [] | Some ls \<Rightarrow> ls) = [lc]"
  shows "(u \<noteq> unit lc \<longrightarrow> evaluate ss sid v u = Inl ValidationError) \<and>
         (u = unit lc \<and> v > upper_limit lc \<longrightarrow>
            evaluate ss sid v u = Inr (breach upper_breach (upper_limit lc)) \<and>
            alert (breach upper_breach (upper_limit lc)) \<and>
            alert_type (breach upper_breach (upper_limit lc)) = Some upper_breach \<and>
            limit_value (breach upper_breach (upper_limit lc)) = Some (upper_limit lc)) \<and>
         (u = unit lc \<and> v < lower_limit lc \<and> v \<le> upper_limit lc \<longrightarrow>
            evaluate ss sid v u = Inr (breach lower_breach (lower_limit lc)) \<and>
            alert (breach lower_breach (lower_limit lc)) \<and>
            alert_type (breach lower_breach (lower_limit lc)) = Some lower_breach \<and>
            limit_value (breach lower_breach (lower_limit lc)) = Some (lower_limit lc)) \<and>
         (u = unit lc \<and> lower_limit lc \<le> v \<and> v \<le> upper_limit lc \<longrightarrow>
            evaluate ss sid v u = Inr no_breach \<and> \<not> alert no_breach)"
  using evaluate_selected [OF assms, of v u]
  by (auto simp: evaluate_limit_def breach_def no_breach_def)

lemma temp01_selected:
  "find (\<lambda>s. sensor_id s = ''temp01'') [temp01] = Some temp01 \<and>
   filter is_selected (case limits temp01 of None \<Rightarrow> [] | Some ls \<Rightarrow> ls) =
     [\<lparr>name = ''default'', upper_limit = 30, lower_limit = 10, unit = ''C'', is_selected = True\<rparr>]"
  by (simp add: temp01_def)

theorem evaluate_breach_conditions_witness:
  "find (\<lambda>s. sensor_id s = ''temp01'') [temp01] = Some temp01 \<and>
   filter is_selected (case limits temp01 of None \<Rightarrow> [] | Some ls \<Rightarrow> ls) =
     [\<lparr>name = ''default'', upper_limit = 30, lower_limit = 10, unit = ''C'', is_selected = True\<rparr>] \<and>
   evaluate [temp01] ''temp01'' 35 ''C'' = Inr (breach upper_breach 30) \<and>
   evaluate [temp01] ''temp01'' 5 ''C'' = Inr (breach lower_breach 10) \<and>
   evaluate [temp01] ''temp01'' 20 ''C'' = Inr no_breach \<and>
   evaluate [temp01] ''temp01'' 35 ''F'' = Inl ValidationError"
  using evaluate_breach_conditions [OF conjunct1 [OF temp01_selected] conjunct2 [OF temp01_selected], of "''C''" 35]
    evaluate_breach_conditions [OF conjunct1 [OF temp01_selected] conjunct2 [OF temp01_selected], of "''C''" 5]
    evaluate_breach_conditions [OF conjunct1 [OF temp01_selected] conjunct2 [OF temp01_selected], of "''C''" 20]
    evaluate_breach_conditions [OF conjunct1 [OF temp01_selected] conjunct2 [OF temp01_selected], of "''F''" 35]
    temp01_selected
  by simp

subsection \<open>The effective rule of an authorization\<close>

lemma more_specific_irrefl: "\<not> more_specific r r"
  by (simp add: more_specific_def Let_def)

lemma more_specific_trans:
  "more_specific a b \<Longrightarrow> more_specific b c \<Longrightarrow> more_specific a c"
  by (auto simp: more_specific_def Let_def)

lemma minimal_exists:
  "rs \<noteq> [] \<Longrightarrow> \<exists>m \<in> set rs. \<forall>r' \<in> set rs. \<not> more_specific r' m"
proof (induction rs)
  case Nil
  then show ?case by simp
next
  case (Cons x xs)
  show ?case
  proof (cases "xs = []")
    case True
    then show ?thesis by (simp add: more_specific_irrefl)
  next
    case False
    with Cons.IH obtain m where m: "m \<in> set xs" "\<forall>r' \<in> set xs. \<not> more_specific r' m"
      by blast
    show ?thesis
    proof (cases "more_specific x m")
      case True
      have "\<forall>r' \<in> set (x # xs). \<not> more_specific r' x"
        using True m more_specific_trans more_specific_irrefl by auto
      then show ?thesis by auto
    next
      case False
      with m have "\<forall>r' \<in> set (x # xs). \<not> more_specific r' m" by simp
      with m(1) show ?thesis by auto
    qed
  qed
qed

lemma most_specific_set:
  "set (most_specific rs) = {r \<in> set rs. \<forall>r' \<in> set rs. \<not> more_specific r' r}"
  by (auto simp: most_specific_def list_all_iff)

lemma most_specific_nonempty: "rs \<noteq> [] \<Longrightarrow> most_specific rs \<noteq> []"
proof -
  assume "rs \<noteq> []"
  then obtain m where "m \<in> set rs" "\<forall>r' \<in> set rs. \<not> more_specific r' m"
    using minimal_exists by blast
  then have "m \<in> set (most_specific rs)" by (simp add: most_specific_set)
  then show ?thesis by auto
qed

lemma effective_rule_most_specific:
  assumes "effective_rule rs act = Some r"
  shows "r \<in> set (most_specific rs)"
proof (cases "filter (\<lambda>r. act \<in> set (deny r)) (most_specific rs)")
  case Nil
  with assms show ?thesis
    by (cases "most_specific rs") (simp_all add: effective_rule_def)
next
  case (Cons d ds)
  then have "d \<in> set (filter (\<lambda>r. act \<in> set (deny r)) (most_specific rs))" by simp
  then have "d \<in> set (most_specific rs)" by simp
  moreover from assms Cons have "r = d" by (simp add: effective_rule_def)
  ultimately show ?thesis by simp
qed

lemma effective_rule_exists: "rs \<noteq> [] \<Longrightarrow> effective_rule rs act \<noteq> None"
  using most_specific_nonempty [of rs]
  by (auto simp: effective_rule_def split: list.splits)

lemma effective_rule_deny_wins:
  assumes "d \<in> set (most_specific rs)" and "act \<in> set (deny d)"
  shows "\<exists>e. effective_rule rs act = Some e \<and> act \<in> set (deny e)"
proof (cases "filter (\<lambda>r. act \<in> set (deny r)) (most_specific rs)")
  case Nil
  with assms have False by (auto simp: filter_empty_conv)
  then show ?thesis ..
next
  case (Cons e es)
  then have "e \<in> set (filter (\<lambda>r. act \<in> set (deny r)) (most_specific rs))" by simp
  then have "act \<in> set (deny e)" by simp
  moreover from Cons have "effective_rule rs act = Some e" by (simp add: effective_rule_def)
  ultimately show ?thesis by simp
qed

lemma matches_literal: "wildcards p = 0 \<Longrightarrow> matches p ts \<Longrightarrow> p = ts"
proof (induction p arbitrary: ts)
  case Nil
  then show ?case by simp
next
  case (Cons a p)
  from Cons.prems(1) have a: "\<not> is_wildcard a" and p: "wildcards p = 0"
    by (auto simp: wildcards_def split: if_splits)
  from a have "a \<noteq> ''#''" "a \<noteq> ''+''" by (auto simp: is_wildcard_def)
  with Cons.prems(2) obtain t ts' where "ts = t # ts'" "a = t" "matches p ts'"
    by (cases ts) auto
  with Cons.IH [OF p] show ?case by simp
qed

lemma matches_self: "wildcards ts = 0 \<Longrightarrow> matches ts ts"
proof (induction ts)
  case Nil
  then show ?case by simp
next
  case (Cons a ts)
  from Cons.prems have a: "\<not> is_wildcard a" and p: "wildcards ts = 0"
    by (auto simp: wildcards_def split: if_splits)
  from a have "a \<noteq> ''#''" by (auto simp: is_wildcard_def)
  with Cons.IH [OF p] show ?case by simp
qed

lemma exact_rule_most_specific:
  assumes "d \<in> set (rules_of snap user)" and "rule_pattern d = topic"
    and "act \<in> set (deny d)" and "wildcards (levels topic) = 0"
  shows "d \<in> set (most_specific (matching_rules snap user topic act))"
proof -
  have d: "d \<in> set (matching_rules snap user topic act)"
    using assms matches_self by (simp add: matching_rules_def)
  have "\<not> more_specific r' d" if "r' \<in> set (matching_rules snap user topic act)" for r'
  proof
    assume ms: "more_specific r' d"
    from that have m: "matches (levels (rule_pattern r')) (levels topic)"
      by (simp add: matching_rules_def)
    from ms assms(2,4) have w: "wildcards (levels (rule_pattern r')) = 0"
      and l: "literal_prefix (levels (rule_pattern r')) > literal_prefix (levels topic)"
      by (auto simp: more_specific_def Let_def)
    from matches_literal [OF w m] l show False by simp
  qed
  with d show ?thesis by (simp add: most_specific_set)
qed

lemma decide_effective:
  "effective_rule (matching_rules snap user topic act) act = Some r \<Longrightarrow>
     decide snap user topic act = (if act \<in> set (deny r) then Denied explicit_deny else Allowed)"
  by (simp add: decide_def)

lemma decide_deny_wins:
  assumes "d \<in> set (most_specific (matching_rules snap user topic act))" and "act \<in> set (deny d)"
  shows "decide snap user topic act = Denied explicit_deny"
  using effective_rule_deny_wins [OF assms] by (auto simp: decide_def)

text \<open>
  C4. The effective rule of a query is one of its matching rules than which no
  matching rule is more specific (fewer wildcard tokens or, with as many, a longer
  literal prefix), it exists whenever a rule matches, and it decides the query. If any
  of the most specific matching rules denies the action, the decision is
  \<^verbatim>\<open>explicit_deny\<close>, whatever the rules tied with it allow. In particular a rule whose
  pattern is the topic itself and that denies the action wins over every wildcard rule
  that allows it.
\<close>

theorem most_specific_rule_decides:
  "(effective_rule (matching_rules snap user topic act) act = Some r \<longrightarrow>
      r \<in> set (matching_rules snap user topic act) \<and>
      (\<forall>r' \<in> set (matching_rules snap user topic act). \<not> more_specific r' r) \<and>
      decide snap user topic act = (if act \<in> set (deny r) then Denied explicit_deny else Allowed)) \<and>
   (matching_rules snap user topic act \<noteq> [] \<longrightarrow>
      effective_rule (matching_rules snap user topic act) act \<noteq> None) \<and>
   (d \<in> set (matching_rules snap user topic act) \<and>
    (\<forall>r' \<in> set (matching_rules snap user topic act). \<not> more_specific r' d) \<and>
    act \<in> set (deny d) \<longrightarrow>
      decide snap user topic act = Denied explicit_deny) \<and>
   (d \<in> set (rules_of snap user) \<and> rule_pattern d = topic \<and> act \<in> set (deny d) \<and>
    wildcards (levels topic) = 0 \<longrightarrow>
      decide snap user topic act = Denied explicit_deny)"
proof -
  let ?ms = "matching_rules snap user topic act"
  have a: "effective_rule ?ms act = Some r \<longrightarrow>
      r \<in> set ?ms \<and> (\<forall>r' \<in> set ?ms. \<not> more_specific r' r) \<and>
      decide snap user topic act = (if act \<in> set (deny r) then Denied explicit_deny else Allowed)"
    using effective_rule_most_specific [of ?ms act r] decide_effective [of snap user topic act r]
    by (simp add: most_specific_set)
  have b: "?ms \<noteq> [] \<longrightarrow> effective_rule ?ms act \<noteq> None"
    using effective_rule_exists by blast
  have c: "d \<in> set ?ms \<and> (\<forall>r' \<in> set ?ms. \<not> more_specific r' d) \<and> act \<in> set (deny d) \<longrightarrow>
      decide snap user topic act = Denied explicit_deny"
    using decide_deny_wins [of d snap user topic act] by (simp add: most_specific_set)
  have e: "d \<in> set (rules_of snap user) \<and> rule_pattern d = topic \<and> act \<in> set (deny d) \<and>
      wildcards (levels topic) = 0 \<longrightarrow> decide snap user topic act = Denied explicit_deny"
    using exact_rule_most_specific [of d snap user topic act]
      decide_deny_wins [of d snap user topic act] by blast
  from a b c e show ?thesis by blast
qed

lemma levels_device1:
  "levels ''sf/sensors/device1/temperature'' = [''sf'', ''sensors'', ''device1'', ''temperature'']"
  by simp

lemma levels_device2:
  "levels ''sf/sensors/device2/temperature'' = [''sf'', ''sensors'', ''device2'', ''temperature'']"
  by simp

lemma levels_plus:
  "levels ''sf/sensors/+/temperature'' = [''sf'', ''sensors'', ''+'', ''temperature'']"
  by simp

lemma alice_rules:
  "rules_of operator_rules ''alice'' =
     [\<lparr>rule_pattern = ''sf/sensors/+/temperature'', allow = [publish, subscribe], deny = []\<rparr>,
      \<lparr>rule_pattern = ''sf/sensors/device1/temperature'', allow = [], deny = [publish]\<rparr>]"
  by (simp add: rules_of_def operator_rules_def)

lemma device2_allowed:
  "decide operator_rules ''alice'' ''sf/sensors/device2/temperature'' publish = Allowed"
  by (simp add: decide_def effective_rule_def most_specific_def matching_rules_def alice_rules
      levels_device1 levels_device2 levels_plus more_specific_def wildcards_def
      literal_prefix_def is_wildcard_def Let_def del: levels.simps)

lemma tied_matching:
  "matching_rules tied_rules ''alice'' ''sf/sensors/device1/temperature'' publish =
     [\<lparr>rule_pattern = ''sf/sensors/+/temperature'', allow = [publish], deny = []\<rparr>,
      \<lparr>rule_pattern = ''sf/sensors/#'', allow = [], deny = [publish]\<rparr>]"
  by (simp add: matching_rules_def rules_of_def tied_rules_def)

lemma tied_specificity:
  "\<not> more_specific \<lparr>rule_pattern = ''sf/sensors/+/temperature'', allow = [publish], deny = []\<rparr>
        \<lparr>rule_pattern = ''sf/sensors/#'', allow = [], deny = [publish]\<rparr> \<and>
   \<not> more_specific \<lparr>rule_pattern = ''sf/sensors/#'', allow = [], deny = [publish]\<rparr>
        \<lparr>rule_pattern = ''sf/sensors/#'', allow = [], deny = [publish]\<rparr>"
  by (simp add: more_specific_def wildcards_def literal_prefix_def is_wildcard_def Let_def)

lemma device1_effective:
  "effective_rule (matching_rules operator_rules ''alice'' ''sf/sensors/device1/temperature'' publish)
     publish =
   Some \<lparr>rule_pattern = ''sf/sensors/device1/temperature'', allow = [], deny = [publish]\<rparr>"
  by (simp add: effective_rule_def most_specific_def matching_rules_def alice_rules
      levels_device1 levels_plus more_specific_def wildcards_def
      literal_prefix_def is_wildcard_def Let_def del: levels.simps)

theorem most_specific_rule_decides_witness:
  "\<lparr>rule_pattern = ''sf/sensors/device1/temperature'', allow = [], deny = [publish]\<rparr>
     \<in> set (rules_of operator_rules ''alice'') \<and>
   wildcards (levels ''sf/sensors/device1/temperature'') = 0 \<and>
   effective_rule (matching_rules operator_rules ''alice'' ''sf/sensors/device1/temperature'' publish)
     publish =
     Some \<lparr>rule_pattern = ''sf/sensors/device1/temperature'', allow = [], deny = [publish]\<rparr> \<and>
   decide operator_rules ''alice'' ''sf/sensors/device1/temperature'' publish = Denied explicit_deny \<and>
   decide operator_rules ''alice'' ''sf/sensors/device2/temperature'' publish = Allowed \<and>
   matching_rules tied_rules ''alice'' ''sf/sensors/device1/temperature'' publish =
     [\<lparr>rule_pattern = ''sf/sensors/+/temperature'', allow = [publish], deny = []\<rparr>,
      \<lparr>rule_pattern = ''sf/sensors/#'', allow = [], deny = [publish]\<rparr>] \<and>
   \<not> more_specific \<lparr>rule_pattern = ''sf/sensors/+/temperature'', allow = [publish], deny = []\<rparr>
        \<lparr>rule_pattern = ''sf/sensors/#'', allow = [], deny = [publish]\<rparr> \<and>
   decide tied_rules ''alice'' ''sf/sensors/device1/temperature'' publish = Denied explicit_deny"
proof -
  let ?d = "\<lparr>rule_pattern = ''sf/sensors/device1/temperature'', allow = [], deny = [publish]\<rparr>"
  let ?t = "\<lparr>rule_pattern = ''sf/sensors/#'', allow = [], deny = [publish]\<rparr>"
  have a: "?d \<in> set (rules_of operator_rules ''alice'')" by (simp add: alice_rules)
  have b: "wildcards (levels ''sf/sensors/device1/temperature'') = 0"
    by (simp add: levels_device1 wildcards_def is_wildcard_def del: levels.simps)
  have c: "rule_pattern ?d = ''sf/sensors/device1/temperature'' \<and> publish \<in> set (deny ?d)"
    by simp
  from a b c most_specific_rule_decides
    [of operator_rules "''alice''" "''sf/sensors/device1/temperature''" publish _ ?d]
  have d1: "decide operator_rules ''alice'' ''sf/sensors/device1/temperature'' publish =
              Denied explicit_deny"
    by blast
  have t1: "?t \<in> set (matching_rules tied_rules ''alice'' ''sf/sensors/device1/temperature'' publish)"
    by (simp only: tied_matching) simp
  have t2: "\<forall>r' \<in> set (matching_rules tied_rules ''alice'' ''sf/sensors/device1/temperature'' publish).
              \<not> more_specific r' ?t"
    using tied_specificity by (simp only: tied_matching) simp
  have t3: "publish \<in> set (deny ?t)" by simp
  from t1 t2 t3 most_specific_rule_decides
    [of tied_rules "''alice''" "''sf/sensors/device1/temperature''" publish _ ?t]
  have d2: "decide tied_rules ''alice'' ''sf/sensors/device1/temperature'' publish =
              Denied explicit_deny"
    by blast
  from a b d1 d2 device2_allowed device1_effective tied_matching tied_specificity
  show ?thesis by blast
qed

end
